theory Spec2Isabelle
  imports Complex_Main
begin

unbundle bit_operations_syntax

section \<open>GeoPySpark collection wrappers (geopyspark/geotrellis/rdd.py)\<close>

text \<open>
  The module wraps collections that live in a remote (JVM) engine. A Python wrapper object
  holds an opaque handle \<open>srdd\<close>; a method validates its arguments, sends at most a few
  requests through the handle and wraps the handle that comes back in a new Python object.

  The embedding keeps the two kinds of effect of the module explicit:
  \<^item> the Python heap: a list of wrapper objects, a reference being an index into it (the only
    mutable attribute is \<open>is_cached\<close>);
  \<^item> the requests that cross to the engine, logged in the order in which they are sent.

  What the engine answers is a parameter of every definition (\<open>'h engine\<close>), since the
  engine is not part of this module. Exceptions are values of \<open>py_error\<close>.
\<close>

subsection \<open>Exceptions\<close>

text \<open>
  The constructors are the Python exception classes the module raises, with the arguments of
  the exception. A message built with \<open>str.format\<close> is kept as its template. A failure
  inside the engine reaches Python as \<open>Py4JJavaError\<close>. \<open>DanglingReference\<close> stands for
  a method call on an object that does not exist, which Python cannot express.
\<close>

datatype py_error =
    ValueError "string list"
  | TypeError "string list"
  | IndexError "string list"
  | KeyError "string list"
  | AttributeError "string list"
  | Py4JJavaError string
  | DanglingReference

subsection \<open>Constants imported from geopyspark.geotrellis.constants\<close>

text \<open>
  The constants module is not among the sources, so its values are a parameter: every
  definition below takes the table of constants as an argument. Optional arguments are
  passed explicitly; their defaults in the source are \<open>NEARESTNEIGHBOR\<close> for a resample
  method, \<open>FLOAT\<close> for a layout scheme, \<open>LESSTHANOREQUALTO\<close> for a boundary strategy,
  256 for a tile size, 0.1 for a resolution threshold and \<open>None\<close> otherwise.
\<close>

record constants =
  RESAMPLE_METHODS :: "string list"
  OPERATIONS :: "string list"
  NEIGHBORHOODS :: "string list"
  CELL_TYPES :: "string list"
  NEARESTNEIGHBOR :: string
  SLOPE :: string
  ASPECT :: string
  SQUARE :: string
  FLOAT :: string
  SPATIAL :: string
  LESSTHANOREQUALTO :: string
  NODATAINT :: int

subsection \<open>Python values that cross the bridge\<close>

text \<open>
  Numbers are Python \<open>int\<close> (unbounded) and \<open>float\<close>; a float is modelled by its exact
  rational value, with \<open>float('nan')\<close> as a value of its own. Tuples are needed for the
  grouped keys of a reclassification map.
\<close>

datatype pyval =
    PyInt int
  | PyFloat rat
  | PyNaN
  | PyTuple "pyval list"

datatype pytype = Int_type | Float_type

text \<open>\<open>isinstance(v, data_type)\<close> for \<open>data_type\<close> one of \<open>int\<close>, \<open>float\<close>.\<close>

fun isinstance :: "pyval \<Rightarrow> pytype \<Rightarrow> bool" where
  "isinstance (PyInt _) Int_type = True"
| "isinstance (PyFloat _) Float_type = True"
| "isinstance PyNaN Float_type = True"
| "isinstance _ _ = False"

text \<open>Truth value of a number or tuple: zero and the empty tuple are false, NaN is true.\<close>

fun truthy :: "pyval \<Rightarrow> bool" where
  "truthy (PyInt i) = (i \<noteq> 0)"
| "truthy (PyFloat r) = (r \<noteq> 0)"
| "truthy PyNaN = True"
| "truthy (PyTuple vs) = (vs \<noteq> [])"

text \<open>Iteration (\<open>for k in key\<close>): only a tuple can be iterated.\<close>

fun py_iter :: "pyval \<Rightarrow> py_error + pyval list" where
  "py_iter (PyTuple vs) = Inr vs"
| "py_iter (PyInt _) = Inl (TypeError [''int object is not iterable''])"
| "py_iter _ = Inl (TypeError [''float object is not iterable''])"

text \<open>
  Equality of dictionary keys: \<open>1 == 1.0\<close> holds in Python and both hash alike, NaN is
  equal to nothing, tuples are compared element by element.
\<close>

fun py_eq :: "pyval \<Rightarrow> pyval \<Rightarrow> bool" where
  "py_eq (PyInt i) (PyInt j) = (i = j)"
| "py_eq (PyInt i) (PyFloat r) = (of_int i = r)"
| "py_eq (PyFloat r) (PyInt i) = (r = of_int i)"
| "py_eq (PyFloat r) (PyFloat s) = (r = s)"
| "py_eq (PyTuple []) (PyTuple []) = True"
| "py_eq (PyTuple (x # xs)) (PyTuple (y # ys)) = (py_eq x y \<and> py_eq (PyTuple xs) (PyTuple ys))"
| "py_eq _ _ = False"

text \<open>
  A \<open>dict\<close> in insertion order. \<open>d[k] = v\<close> overwrites the value of an equal key, which
  keeps its place and its first spelling, and appends a new key otherwise.
\<close>

type_synonym pydict = "(pyval \<times> pyval) list"

fun dict_set :: "pydict \<Rightarrow> pyval \<Rightarrow> pyval \<Rightarrow> pydict" where
  "dict_set [] k v = [(k, v)]"
| "dict_set ((k', v') # d) k v =
     (if py_eq k' k then (k', v) # d else (k', v') # dict_set d k v)"

text \<open>\<open>str(i)\<close> for an \<open>int\<close>: the decimal digits, with a minus sign.\<close>

fun str_nat :: "nat \<Rightarrow> string" where
  "str_nat n =
     (if n < 10 then [char_of (48 + n)]
      else str_nat (n div 10) @ [char_of (48 + n mod 10)])"

declare str_nat.simps [simp del]

definition str_int :: "int \<Rightarrow> string" where
  "str_int i = (if i < 0 then CHR ''-'' # str_nat (nat (- i)) else str_nat (nat i))"

text \<open>
  A coordinate reference system is passed as \<open>None\<close>, a string or an EPSG number.
  \<open>crs_falsy\<close> is Python's \<open>not crs\<close>.
\<close>

datatype crs_value = CrsNone | CrsStr string | CrsInt int

fun crs_falsy :: "crs_value \<Rightarrow> bool" where
  "crs_falsy CrsNone = True"
| "crs_falsy (CrsStr s) = (s = [])"
| "crs_falsy (CrsInt i) = (i = 0)"

text \<open>\<open>if isinstance(crs, int): crs = str(crs)\<close>\<close>

fun crs_int_to_str :: "crs_value \<Rightarrow> crs_value" where
  "crs_int_to_str (CrsInt i) = CrsStr (str_int i)"
| "crs_int_to_str c = c"

subsection \<open>Extents, layouts and layer metadata\<close>

text \<open>
  Extent, tile layout and layer metadata are the dictionaries exchanged with the engine
  (the metadata as a JSON document). The fields are the keys the module reads
  (\<open>bounds\<close>, \<open>minKey\<close>, \<open>maxKey\<close>, \<open>col\<close>, \<open>row\<close>, \<open>layoutDefinition\<close>, \<open>tileLayout\<close>,
  \<open>tileRows\<close>) and those of the data model (the extent of the data, an extent paired with
  a tile layout, a CRS and a cell type). \<open>md_extent\<close> is the key \<open>extent\<close> of the metadata
  document, the extent of the rasters of the layer; \<open>ld_extent\<close> is the key \<open>extent\<close> of
  its layout definition. \<open>bounds\<close> is absent when no key is populated. \<open>json.dumps\<close> and
  \<open>json.loads\<close> are inverse on these documents, so a document is modelled by its content.
\<close>

record extent =
  xmin :: rat
  ymin :: rat
  xmax :: rat
  ymax :: rat

record tile_layout =
  layoutCols :: int
  layoutRows :: int
  tileCols :: int
  tileRows :: int

record layout_definition =
  ld_extent :: extent
  tileLayout :: tile_layout

record spatial_key =
  col :: int
  row :: int

record key_bounds =
  minKey :: spatial_key
  maxKey :: spatial_key

record metadata =
  md_extent :: extent
  layoutDefinition :: layout_definition
  bounds :: "key_bounds option"
  crs :: crs_value
  cellType :: string

subsection \<open>Requests to the engine\<close>

text \<open>
  One constructor for each method of the remote object that the modelled methods call, with
  the arguments in the order of the call. \<open>'h\<close> is the type of remote handles.
\<close>

datatype local_op =
    localAdd | localSubtract | reverseLocalSubtract
  | localMultiply | localDivide | reverseLocalDivide

datatype 'h operand =
    OpInt int
  | OpFloat rat
  | OpRdd 'h
  | OpRdds "'h list"

datatype 'h request =
    R_collectMetadata 'h extent tile_layout crs_value
  | R_collectMetadata_size 'h string crs_value
  | R_convertDataType 'h string
  | R_reproject 'h crs_value string
  | R_reproject_layout 'h extent tile_layout crs_value string
  | R_reproject_scheme 'h string int rat crs_value string
  | R_cutTiles 'h metadata string
  | R_tileToLayout 'h metadata string
  | R_tileToLayout_tiled 'h tile_layout string
  | R_reclassify 'h pydict string pyval
  | R_reclassifyDouble 'h pydict string pyval
  | R_layerMetadata 'h
  | R_repartition 'h int
  | R_lookup 'h int int
  | R_pyramid 'h int int string
  | R_focal 'h string string rat rat rat
  | R_mask 'h "string list"
  | R_costDistance 'h "string list" rat
  | R_local local_op 'h "'h operand"
  | R_persist 'h string
  | R_unpersist 'h

text \<open>
  The engine answers a request with a handle, a list of handles, a metadata document or a
  list of encoded tiles, or fails (\<open>Inl\<close>, the message of the Java exception).
\<close>

record 'h engine =
  answer_rdd :: "'h request \<Rightarrow> string + 'h"
  answer_rdds :: "'h request \<Rightarrow> string + 'h list"
  answer_metadata :: "'h request \<Rightarrow> string + metadata"
  answer_tiles :: "'h request \<Rightarrow> string + string list"

subsection \<open>Wrapper objects and the state of a session\<close>

datatype wrapper_class = RasterRDD | TiledRasterRDD

record 'h wrapper =
  wrapper_class :: wrapper_class
  geopysc :: nat
  rdd_type :: string
  srdd :: 'h
  is_cached :: bool

type_synonym ref = nat

record 'h world =
  objects :: "'h wrapper list"
  requests :: "'h request list"

type_synonym ('h, 'a) py = "'h world \<Rightarrow> (py_error + 'a) \<times> 'h world"

definition py_return :: "'a \<Rightarrow> ('h, 'a) py" where
  "py_return a = (\<lambda>w. (Inr a, w))"

definition py_raise :: "py_error \<Rightarrow> ('h, 'a) py" where
  "py_raise e = (\<lambda>w. (Inl e, w))"

definition py_bind :: "('h, 'a) py \<Rightarrow> ('a \<Rightarrow> ('h, 'b) py) \<Rightarrow> ('h, 'b) py" where
  "py_bind m f = (\<lambda>w. case m w of (Inl e, w') \<Rightarrow> (Inl e, w') | (Inr a, w') \<Rightarrow> f a w')"

text \<open>Reading the attributes of \<open>self\<close>.\<close>

definition get_self :: "ref \<Rightarrow> ('h, 'h wrapper) py" where
  "get_self r = (\<lambda>w. if r < length (objects w) then (Inr (objects w ! r), w)
                      else (Inl DanglingReference, w))"

text \<open>\<open>self.is_cached = b\<close>\<close>

definition set_is_cached :: "ref \<Rightarrow> bool \<Rightarrow> ('h, unit) py" where
  "set_is_cached r b = (\<lambda>w. if r < length (objects w)
       then (Inr (), w\<lparr>objects := (objects w)[r := (objects w ! r)\<lparr>is_cached := b\<rparr>]\<rparr>)
       else (Inl DanglingReference, w))"

text \<open>
  A call through the bridge: the request is logged, then the engine's answer is returned or
  its failure raised.
\<close>

definition remote :: "('h request \<Rightarrow> string + 'a) \<Rightarrow> 'h request \<Rightarrow> ('h, 'a) py" where
  "remote answer q = (\<lambda>w.
     (case answer q of Inl msg \<Rightarrow> Inl (Py4JJavaError msg) | Inr a \<Rightarrow> Inr a,
      w\<lparr>requests := requests w @ [q]\<rparr>))"

text \<open>
  \<open>RDDWrapper.__init__\<close> sets \<open>is_cached = False\<close>; \<open>RasterRDD.__init__\<close> and
  \<open>TiledRasterRDD.__init__\<close> call it and store their three arguments. The new object gets
  the next free reference.
\<close>

definition new_wrapper :: "wrapper_class \<Rightarrow> nat \<Rightarrow> string \<Rightarrow> 'h \<Rightarrow> ('h, ref) py" where
  "new_wrapper c g t h = (\<lambda>w.
     (Inr (length (objects w)),
      w\<lparr>objects := objects w @
          [\<lparr>wrapper_class = c, geopysc = g, rdd_type = t, srdd = h, is_cached = False\<rparr>]\<rparr>))"

definition RasterRDD_init :: "nat \<Rightarrow> string \<Rightarrow> 'h \<Rightarrow> ('h, ref) py" where
  "RasterRDD_init g t h = new_wrapper RasterRDD g t h"

definition TiledRasterRDD_init :: "nat \<Rightarrow> string \<Rightarrow> 'h \<Rightarrow> ('h, ref) py" where
  "TiledRasterRDD_init g t h = new_wrapper TiledRasterRDD g t h"

subsection \<open>RDDWrapper: cache, persist, unpersist\<close>

text \<open>
  \<open>persist\<close> sets the flag before it sends the request and returns \<open>self\<close>;
  \<open>cache\<close> is \<open>persist\<close> with the default storage level \<open>MEMORY_ONLY\<close>. The
  conversion of the storage level to its Java counterpart is local to the gateway.
\<close>

definition persist :: "'h engine \<Rightarrow> ref \<Rightarrow> string \<Rightarrow> ('h, ref) py" where
  "persist E self storageLevel =
     py_bind (get_self self) (\<lambda>s.
     py_bind (set_is_cached self True) (\<lambda>_.
     py_bind (remote (answer_rdd E) (R_persist (srdd s) storageLevel)) (\<lambda>_.
     py_return self)))"

definition cache :: "'h engine \<Rightarrow> ref \<Rightarrow> ('h, ref) py" where
  "cache E self = py_bind (persist E self ''MEMORY_ONLY'') (\<lambda>_. py_return self)"

definition unpersist :: "'h engine \<Rightarrow> ref \<Rightarrow> ('h, ref) py" where
  "unpersist E self =
     py_bind (get_self self) (\<lambda>s.
     py_bind (set_is_cached self False) (\<lambda>_.
     py_bind (remote (answer_rdd E) (R_unpersist (srdd s))) (\<lambda>_.
     py_return self)))"

subsection \<open>The reclassification builder\<close>

text \<open>
  The loop of \<open>_reclassify\<close> over \<open>value_map.items()\<close>: a key that is not an instance
  of \<open>data_type\<close> is iterated and each of its members becomes a key of \<open>new_dict\<close>;
  iterating a number raises \<open>TypeError\<close>.
\<close>

fun expand_value_map :: "pytype \<Rightarrow> pydict \<Rightarrow> pydict \<Rightarrow> py_error + pydict" where
  "expand_value_map data_type [] new_dict = Inr new_dict"
| "expand_value_map data_type ((key, val) # items) new_dict =
     (if \<not> isinstance key data_type then
        (case py_iter key of
           Inl e \<Rightarrow> Inl e
         | Inr ks \<Rightarrow>
             expand_value_map data_type items (foldl (\<lambda>d k. dict_set d k val) new_dict ks))
      else expand_value_map data_type items (dict_set new_dict key val))"

text \<open>\<open>not replace_nodata_with\<close>, for an argument that is \<open>None\<close> or a number.\<close>

fun not_opt :: "pyval option \<Rightarrow> bool" where
  "not_opt None = True"
| "not_opt (Some v) = (\<not> truthy v)"

text \<open>
  \<open>_reclassify(srdd, value_map, data_type, boundary_strategy, replace_nodata_with)\<close>.
  \<open>value_map\<close> is given by its items in order. Any \<open>data_type\<close> other than \<open>int\<close>
  takes the \<open>reclassifyDouble\<close> branch. Where \<open>replace_nodata_with\<close> itself is passed on
  it is not \<open>None\<close>, since \<open>None\<close> is false.
\<close>

definition module_reclassify ::
  "'h engine \<Rightarrow> constants \<Rightarrow> 'h \<Rightarrow> pydict \<Rightarrow> pytype \<Rightarrow> string \<Rightarrow> pyval option \<Rightarrow> ('h, 'h) py"
where
  "module_reclassify E C h value_map data_type boundary_strategy replace_nodata_with =
     (case expand_value_map data_type value_map [] of
        Inl e \<Rightarrow> py_raise e
      | Inr new_dict \<Rightarrow>
          (if data_type = Int_type then
             (if not_opt replace_nodata_with then
                remote (answer_rdd E)
                  (R_reclassify h new_dict boundary_strategy (PyInt (NODATAINT C)))
              else
                remote (answer_rdd E)
                  (R_reclassify h new_dict boundary_strategy (the replace_nodata_with)))
           else
             (if not_opt replace_nodata_with then
                remote (answer_rdd E)
                  (R_reclassifyDouble h new_dict boundary_strategy PyNaN)
              else
                remote (answer_rdd E)
                  (R_reclassifyDouble h new_dict boundary_strategy (the replace_nodata_with)))))"

subsection \<open>RasterRDD\<close>

text \<open>The message of every resample check.\<close>

definition unknown_resample_method :: "string \<Rightarrow> py_error" where
  "unknown_resample_method m = ValueError [m, '' Is not a known resample method.'']"

definition RasterRDD_convert_data_type ::
  "'h engine \<Rightarrow> constants \<Rightarrow> ref \<Rightarrow> string \<Rightarrow> ('h, ref) py"
where
  "RasterRDD_convert_data_type E C self new_type =
     (if new_type \<notin> set (CELL_TYPES C) then
        py_raise (ValueError [new_type, ''Is not a know Cell Type''])
      else
        py_bind (get_self self) (\<lambda>s.
        py_bind (remote (answer_rdd E) (R_convertDataType (srdd s) new_type)) (\<lambda>h.
        RasterRDD_init (geopysc s) (rdd_type s) h)))"

text \<open>
  \<open>collect_metadata\<close>. An extent or a layout that is supplied is a non-empty dictionary
  and so true; \<open>None\<close> is false. The branches are \<open>extent and layout\<close>,
  \<open>not extent and not layout\<close> and the \<open>else\<close> that raises.
\<close>

definition RasterRDD_collect_metadata ::
  "'h engine \<Rightarrow> ref \<Rightarrow> extent option \<Rightarrow> tile_layout option \<Rightarrow> crs_value \<Rightarrow> int
     \<Rightarrow> ('h, metadata) py"
where
  "RasterRDD_collect_metadata E self extent layout crs0 tile_size =
     (let crs1 = (if crs_falsy crs0 then CrsStr [] else crs0);
          crs2 = crs_int_to_str crs1
      in case (extent, layout) of
           (Some e, Some l) \<Rightarrow>
             py_bind (get_self self) (\<lambda>s.
             remote (answer_metadata E) (R_collectMetadata (srdd s) e l crs2))
         | (None, None) \<Rightarrow>
             py_bind (get_self self) (\<lambda>s.
             remote (answer_metadata E)
               (R_collectMetadata_size (srdd s) (str_int tile_size) crs2))
         | _ \<Rightarrow> py_raise (TypeError [''Could not collect metadata with {} and {}'']))"

definition RasterRDD_reproject ::
  "'h engine \<Rightarrow> constants \<Rightarrow> ref \<Rightarrow> crs_value \<Rightarrow> string \<Rightarrow> ('h, ref) py"
where
  "RasterRDD_reproject E C self target_crs resample_method =
     (if resample_method \<notin> set (RESAMPLE_METHODS C) then
        py_raise (unknown_resample_method resample_method)
      else
        py_bind (get_self self) (\<lambda>s.
        py_bind (remote (answer_rdd E)
                   (R_reproject (srdd s) (crs_int_to_str target_crs) resample_method)) (\<lambda>h.
        RasterRDD_init (geopysc s) (rdd_type s) h)))"

definition RasterRDD_cut_tiles ::
  "'h engine \<Rightarrow> constants \<Rightarrow> ref \<Rightarrow> metadata \<Rightarrow> string \<Rightarrow> ('h, ref) py"
where
  "RasterRDD_cut_tiles E C self layer_metadata resample_method =
     (if resample_method \<notin> set (RESAMPLE_METHODS C) then
        py_raise (unknown_resample_method resample_method)
      else
        py_bind (get_self self) (\<lambda>s.
        py_bind (remote (answer_rdd E)
                   (R_cutTiles (srdd s) layer_metadata resample_method)) (\<lambda>h.
        TiledRasterRDD_init (geopysc s) (rdd_type s) h)))"

definition RasterRDD_tile_to_layout ::
  "'h engine \<Rightarrow> constants \<Rightarrow> ref \<Rightarrow> metadata \<Rightarrow> string \<Rightarrow> ('h, ref) py"
where
  "RasterRDD_tile_to_layout E C self layer_metadata resample_method =
     (if resample_method \<notin> set (RESAMPLE_METHODS C) then
        py_raise (unknown_resample_method resample_method)
      else
        py_bind (get_self self) (\<lambda>s.
        py_bind (remote (answer_rdd E)
                   (R_tileToLayout (srdd s) layer_metadata resample_method)) (\<lambda>h.
        TiledRasterRDD_init (geopysc s) (rdd_type s) h)))"

text \<open>
  \<open>to_tiled_layer\<close> evaluates its argument \<open>self.collect_metadata(...)\<close> first and then
  calls \<open>tile_to_layout\<close>.
\<close>

definition RasterRDD_to_tiled_layer ::
  "'h engine \<Rightarrow> constants \<Rightarrow> ref \<Rightarrow> extent option \<Rightarrow> tile_layout option \<Rightarrow> crs_value \<Rightarrow> int
     \<Rightarrow> string \<Rightarrow> ('h, ref) py"
where
  "RasterRDD_to_tiled_layer E C self extent layout crs0 tile_size resample_method =
     py_bind (RasterRDD_collect_metadata E self extent layout crs0 tile_size) (\<lambda>md.
     RasterRDD_tile_to_layout E C self md resample_method)"

definition RasterRDD_reclassify ::
  "'h engine \<Rightarrow> constants \<Rightarrow> ref \<Rightarrow> pydict \<Rightarrow> pytype \<Rightarrow> string \<Rightarrow> pyval option \<Rightarrow> ('h, ref) py"
where
  "RasterRDD_reclassify E C self value_map data_type boundary_strategy replace_nodata_with =
     py_bind (get_self self) (\<lambda>s.
     py_bind (module_reclassify E C (srdd s) value_map data_type boundary_strategy
                replace_nodata_with) (\<lambda>h.
     RasterRDD_init (geopysc s) (rdd_type s) h))"

subsection \<open>TiledRasterRDD\<close>

text \<open>The property \<open>layer_metadata\<close>: \<open>json.loads(self.srdd.layerMetadata())\<close>.\<close>

definition TiledRasterRDD_layer_metadata :: "'h engine \<Rightarrow> ref \<Rightarrow> ('h, metadata) py" where
  "TiledRasterRDD_layer_metadata E self =
     py_bind (get_self self) (\<lambda>s.
     remote (answer_metadata E) (R_layerMetadata (srdd s)))"

definition TiledRasterRDD_convert_data_type ::
  "'h engine \<Rightarrow> constants \<Rightarrow> ref \<Rightarrow> string \<Rightarrow> ('h, ref) py"
where
  "TiledRasterRDD_convert_data_type E C self new_type =
     py_bind (get_self self) (\<lambda>s.
     py_bind (remote (answer_rdd E) (R_convertDataType (srdd s) new_type)) (\<lambda>h.
     TiledRasterRDD_init (geopysc s) (rdd_type s) h))"

definition TiledRasterRDD_reproject ::
  "'h engine \<Rightarrow> constants \<Rightarrow> ref \<Rightarrow> crs_value \<Rightarrow> extent option \<Rightarrow> tile_layout option
     \<Rightarrow> string \<Rightarrow> int \<Rightarrow> rat \<Rightarrow> string \<Rightarrow> ('h, ref) py"
where
  "TiledRasterRDD_reproject E C self target_crs extent layout scheme tile_size
       resolution_threshold resample_method =
     (if resample_method \<notin> set (RESAMPLE_METHODS C) then
        py_raise (unknown_resample_method resample_method)
      else
        (let target = crs_int_to_str target_crs
         in case (extent, layout) of
              (Some e, Some l) \<Rightarrow>
                py_bind (get_self self) (\<lambda>s.
                py_bind (remote (answer_rdd E)
                           (R_reproject_layout (srdd s) e l target resample_method)) (\<lambda>h.
                TiledRasterRDD_init (geopysc s) (rdd_type s) h))
            | (None, None) \<Rightarrow>
                py_bind (get_self self) (\<lambda>s.
                py_bind (remote (answer_rdd E)
                           (R_reproject_scheme (srdd s) scheme tile_size resolution_threshold
                              target resample_method)) (\<lambda>h.
                TiledRasterRDD_init (geopysc s) (rdd_type s) h))
            | _ \<Rightarrow>
                py_raise (TypeError [''Could not collect reproject RDD with {} and {}''])))"

definition TiledRasterRDD_repartition :: "'h engine \<Rightarrow> ref \<Rightarrow> int \<Rightarrow> ('h, ref) py" where
  "TiledRasterRDD_repartition E self num_partitions =
     py_bind (get_self self) (\<lambda>s.
     py_bind (remote (answer_rdd E) (R_repartition (srdd s) num_partitions)) (\<lambda>h.
     TiledRasterRDD_init (geopysc s) (rdd_type s) h))"

text \<open>
  \<open>lookup\<close> returns the tiles the engine sends, decoded one by one; the decoder belongs to
  the serialisation layer, so a tile is kept in its encoded form.
\<close>

definition TiledRasterRDD_lookup ::
  "'h engine \<Rightarrow> constants \<Rightarrow> ref \<Rightarrow> int \<Rightarrow> int \<Rightarrow> ('h, string list) py"
where
  "TiledRasterRDD_lookup E C self c r =
     py_bind (get_self self) (\<lambda>s.
     if rdd_type s \<noteq> SPATIAL C then
       py_raise (ValueError
         [''Only TiledRasterRDDs with a rdd_type of Spatial can use lookup()''])
     else
       py_bind (TiledRasterRDD_layer_metadata E self) (\<lambda>md.
       case bounds md of
         None \<Rightarrow> py_raise (KeyError [''bounds''])
       | Some b \<Rightarrow>
           (let min_col = col (minKey b);
                min_row = row (minKey b);
                max_col = col (maxKey b);
                max_row = row (maxKey b)
            in if c < min_col \<or> c > max_col then
                 py_raise (IndexError [''column out of bounds''])
               else if r < min_row \<or> r > max_row then
                 py_raise (IndexError [''row out of bounds''])
               else
                 remote (answer_tiles E) (R_lookup (srdd s) c r))))"

definition TiledRasterRDD_tile_to_layout ::
  "'h engine \<Rightarrow> constants \<Rightarrow> ref \<Rightarrow> tile_layout \<Rightarrow> string \<Rightarrow> ('h, ref) py"
where
  "TiledRasterRDD_tile_to_layout E C self layout resample_method =
     (if resample_method \<notin> set (RESAMPLE_METHODS C) then
        py_raise (unknown_resample_method resample_method)
      else
        py_bind (get_self self) (\<lambda>s.
        py_bind (remote (answer_rdd E)
                   (R_tileToLayout_tiled (srdd s) layout resample_method)) (\<lambda>h.
        TiledRasterRDD_init (geopysc s) (rdd_type s) h)))"

text \<open>\<open>[TiledRasterRDD(self.geopysc, self.rdd_type, srdd) for srdd in result]\<close>\<close>

fun wrap_all :: "nat \<Rightarrow> string \<Rightarrow> 'h list \<Rightarrow> ('h, ref list) py" where
  "wrap_all g t [] = py_return []"
| "wrap_all g t (h # hs) =
     py_bind (TiledRasterRDD_init g t h) (\<lambda>r.
     py_bind (wrap_all g t hs) (\<lambda>rs.
     py_return (r # rs)))"

definition TiledRasterRDD_pyramid ::
  "'h engine \<Rightarrow> constants \<Rightarrow> ref \<Rightarrow> int \<Rightarrow> int \<Rightarrow> string \<Rightarrow> ('h, ref list) py"
where
  "TiledRasterRDD_pyramid E C self start_zoom end_zoom resample_method =
     (if resample_method \<notin> set (RESAMPLE_METHODS C) then
        py_raise (unknown_resample_method resample_method)
      else
        py_bind (TiledRasterRDD_layer_metadata E self) (\<lambda>md.
        let size = tileRows (tileLayout (layoutDefinition md))
        in if (size AND (size - 1)) \<noteq> 0 then
             py_raise (ValueError
               [''Tiles must have a col and row count that is a power of 2''])
           else
             py_bind (get_self self) (\<lambda>s.
             py_bind (remote (answer_rdds E)
                        (R_pyramid (srdd s) start_zoom end_zoom resample_method)) (\<lambda>result.
             wrap_all (geopysc s) (rdd_type s) result))))"

text \<open>
  \<open>focal\<close>. The neighbourhood is \<open>None\<close>, an instance of \<open>Neighborhood\<close> (a class of
  another module, known here by the attributes \<open>name\<close>, \<open>param_1\<close>, \<open>param_2\<close>,
  \<open>param_3\<close> that are read) or a string. The condition of the third branch is
  \<open>(not neighborhood and operation == SLOPE) or operation == ASPECT\<close>.
\<close>

datatype neighborhood_arg =
    NbNone
  | NbInstance string rat rat rat
  | NbStr string

fun nb_falsy :: "neighborhood_arg \<Rightarrow> bool" where
  "nb_falsy NbNone = True"
| "nb_falsy (NbInstance _ _ _ _) = False"
| "nb_falsy (NbStr s) = (s = [])"

text \<open>\<open>if param is None: param = 0.0\<close>, then \<open>float(param)\<close>.\<close>

fun param_or_zero :: "rat option \<Rightarrow> rat" where
  "param_or_zero None = 0"
| "param_or_zero (Some p) = p"

definition TiledRasterRDD_focal ::
  "'h engine \<Rightarrow> constants \<Rightarrow> ref \<Rightarrow> string \<Rightarrow> neighborhood_arg \<Rightarrow> rat option \<Rightarrow> rat option
     \<Rightarrow> rat option \<Rightarrow> ('h, ref) py"
where
  "TiledRasterRDD_focal E C self operation neighborhood param_1 param_2 param_3 =
     (if operation \<notin> set (OPERATIONS C) then
        py_raise (ValueError [operation, ''Is not a known operation.''])
      else
        py_bind (get_self self) (\<lambda>s.
        py_bind
          (case neighborhood of
             NbInstance name p1 p2 p3 \<Rightarrow>
               remote (answer_rdd E) (R_focal (srdd s) operation name p1 p2 p3)
           | NbStr name \<Rightarrow>
               (if name \<notin> set (NEIGHBORHOODS C) then
                  py_raise (ValueError [name, ''is not a known neighborhood.''])
                else
                  remote (answer_rdd E)
                    (R_focal (srdd s) operation name (param_or_zero param_1)
                       (param_or_zero param_2) (param_or_zero param_3)))
           | NbNone \<Rightarrow>
               (if (nb_falsy neighborhood \<and> operation = SLOPE C) \<or> operation = ASPECT C then
                  remote (answer_rdd E) (R_focal (srdd s) operation (SQUARE C) 1 0 0)
                else
                  py_raise (ValueError
                    [''neighborhood must be set or the operation must be SLOPE or ASPECT''])))
          (\<lambda>h. TiledRasterRDD_init (geopysc s) (rdd_type s) h)))"

text \<open>
  \<open>mask\<close> and \<open>cost_distance\<close> send the geometries as WKT. A shapely geometry is
  represented by the text \<open>shapely.wkt.dumps\<close> gives for it.
\<close>

datatype geometry = Geometry string

fun wkt_dumps :: "geometry \<Rightarrow> string" where
  "wkt_dumps (Geometry wkt) = wkt"

datatype geometries_arg = GeometryList "geometry list" | SingleGeometry geometry

text \<open>\<open>if not isinstance(geometries, list): geometries = [geometries]\<close>\<close>

fun as_list :: "geometries_arg \<Rightarrow> geometry list" where
  "as_list (GeometryList gs) = gs"
| "as_list (SingleGeometry g) = [g]"

definition TiledRasterRDD_mask :: "'h engine \<Rightarrow> ref \<Rightarrow> geometries_arg \<Rightarrow> ('h, ref) py" where
  "TiledRasterRDD_mask E self geometries =
     (let wkts = map wkt_dumps (as_list geometries)
      in py_bind (get_self self) (\<lambda>s.
         py_bind (remote (answer_rdd E) (R_mask (srdd s) wkts)) (\<lambda>h.
         TiledRasterRDD_init (geopysc s) (rdd_type s) h)))"

definition TiledRasterRDD_cost_distance ::
  "'h engine \<Rightarrow> ref \<Rightarrow> geometry list \<Rightarrow> rat \<Rightarrow> ('h, ref) py"
where
  "TiledRasterRDD_cost_distance E self geometries max_distance =
     (let wkts = map wkt_dumps geometries
      in py_bind (get_self self) (\<lambda>s.
         py_bind (remote (answer_rdd E) (R_costDistance (srdd s) wkts max_distance)) (\<lambda>h.
         TiledRasterRDD_init (geopysc s) (rdd_type s) h)))"

definition TiledRasterRDD_reclassify ::
  "'h engine \<Rightarrow> constants \<Rightarrow> ref \<Rightarrow> pydict \<Rightarrow> pytype \<Rightarrow> string \<Rightarrow> pyval option \<Rightarrow> ('h, ref) py"
where
  "TiledRasterRDD_reclassify E C self value_map data_type boundary_strategy
       replace_nodata_with =
     py_bind (get_self self) (\<lambda>s.
     py_bind (module_reclassify E C (srdd s) value_map data_type boundary_strategy
                replace_nodata_with) (\<lambda>h.
     TiledRasterRDD_init (geopysc s) (rdd_type s) h))"

text \<open>
  Local arithmetic. The right operand is a number, a wrapper object, a list of wrapper
  objects or something else. \<open>list(map(lambda x: x.srdd, value))\<close> reads the handle of every
  element.
\<close>

datatype value_arg =
    V_int int
  | V_float rat
  | V_object ref
  | V_list "ref list"
  | V_other

fun srdds_of :: "ref list \<Rightarrow> ('h, 'h list) py" where
  "srdds_of [] = py_return []"
| "srdds_of (r # rs) =
     py_bind (get_self r) (\<lambda>x.
     py_bind (srdds_of rs) (\<lambda>hs.
     py_return (srdd x # hs)))"

definition process_operation ::
  "'h engine \<Rightarrow> ref \<Rightarrow> value_arg \<Rightarrow> local_op \<Rightarrow> ('h, ref) py"
where
  "process_operation E self val operation =
     py_bind (get_self self) (\<lambda>s.
     py_bind
       (case val of
          V_int i \<Rightarrow> remote (answer_rdd E) (R_local operation (srdd s) (OpInt i))
        | V_float x \<Rightarrow> remote (answer_rdd E) (R_local operation (srdd s) (OpFloat x))
        | V_object r \<Rightarrow>
            py_bind (get_self r) (\<lambda>v.
            if wrapper_class v = TiledRasterRDD then
              (if rdd_type s \<noteq> rdd_type v then
                 py_raise (ValueError
                   [''Both TiledRasterRDDs need to have the same rdd_type''])
               else
                 py_bind (TiledRasterRDD_layer_metadata E self) (\<lambda>m1.
                 py_bind (TiledRasterRDD_layer_metadata E r) (\<lambda>m2.
                 if tileLayout (layoutDefinition m1) \<noteq> tileLayout (layoutDefinition m2) then
                   py_raise (ValueError
                     [''Both TiledRasterRDDs need to have the same layout''])
                 else
                   remote (answer_rdd E) (R_local operation (srdd s) (OpRdd (srdd v))))))
            else
              py_raise (TypeError [''Local operation cannot be performed with'']))
        | V_list rs \<Rightarrow>
            py_bind (srdds_of rs) (\<lambda>hs.
            remote (answer_rdd E) (R_local operation (srdd s) (OpRdds hs)))
        | V_other \<Rightarrow> py_raise (TypeError [''Local operation cannot be performed with'']))
       (\<lambda>h. TiledRasterRDD_init (geopysc s) (rdd_type s) h))"

definition TiledRasterRDD_add :: "'h engine \<Rightarrow> ref \<Rightarrow> value_arg \<Rightarrow> ('h, ref) py" where
  "TiledRasterRDD_add E self val = process_operation E self val localAdd"

definition TiledRasterRDD_radd :: "'h engine \<Rightarrow> ref \<Rightarrow> value_arg \<Rightarrow> ('h, ref) py" where
  "TiledRasterRDD_radd E self val = process_operation E self val localAdd"

definition TiledRasterRDD_sub :: "'h engine \<Rightarrow> ref \<Rightarrow> value_arg \<Rightarrow> ('h, ref) py" where
  "TiledRasterRDD_sub E self val = process_operation E self val localSubtract"

definition TiledRasterRDD_rsub :: "'h engine \<Rightarrow> ref \<Rightarrow> value_arg \<Rightarrow> ('h, ref) py" where
  "TiledRasterRDD_rsub E self val = process_operation E self val reverseLocalSubtract"

definition TiledRasterRDD_mul :: "'h engine \<Rightarrow> ref \<Rightarrow> value_arg \<Rightarrow> ('h, ref) py" where
  "TiledRasterRDD_mul E self val = process_operation E self val localMultiply"

definition TiledRasterRDD_rmul :: "'h engine \<Rightarrow> ref \<Rightarrow> value_arg \<Rightarrow> ('h, ref) py" where
  "TiledRasterRDD_rmul E self val = process_operation E self val localMultiply"

definition TiledRasterRDD_truediv :: "'h engine \<Rightarrow> ref \<Rightarrow> value_arg \<Rightarrow> ('h, ref) py" where
  "TiledRasterRDD_truediv E self val = process_operation E self val localDivide"

definition TiledRasterRDD_rtruediv :: "'h engine \<Rightarrow> ref \<Rightarrow> value_arg \<Rightarrow> ('h, ref) py" where
  "TiledRasterRDD_rtruediv E self val = process_operation E self val reverseLocalDivide"

subsection \<open>Method calls\<close>

text \<open>
  A call \<open>obj.method(args)\<close>, for the methods of the two classes that return collections.
  \<open>call_method\<close> looks the method up in the class of the receiver, as Python does; a
  method of the other class is an \<open>AttributeError\<close>. The result is the list of
  references returned (one, or the list that \<open>pyramid\<close> returns).
\<close>

datatype wrapper_method = M_cache | M_persist string | M_unpersist

datatype raster_method =
    M_to_tiled_layer "extent option" "tile_layout option" crs_value int string
  | M_raster_convert_data_type string
  | M_raster_reproject crs_value string
  | M_cut_tiles metadata string
  | M_raster_tile_to_layout metadata string
  | M_raster_reclassify pydict pytype string "pyval option"

datatype tiled_method =
    M_convert_data_type string
  | M_reproject crs_value "extent option" "tile_layout option" string int rat string
  | M_repartition int
  | M_tile_to_layout tile_layout string
  | M_pyramid int int string
  | M_focal string neighborhood_arg "rat option" "rat option" "rat option"
  | M_mask geometries_arg
  | M_cost_distance "geometry list" rat
  | M_reclassify pydict pytype string "pyval option"
  | M_add value_arg
  | M_radd value_arg
  | M_sub value_arg
  | M_rsub value_arg
  | M_mul value_arg
  | M_rmul value_arg
  | M_truediv value_arg
  | M_rtruediv value_arg

datatype method_call =
    On_wrapper wrapper_method
  | On_raster raster_method
  | On_tiled tiled_method

definition one :: "('h, ref) py \<Rightarrow> ('h, ref list) py" where
  "one m = py_bind m (\<lambda>r. py_return [r])"

fun call_wrapper :: "'h engine \<Rightarrow> ref \<Rightarrow> wrapper_method \<Rightarrow> ('h, ref list) py" where
  "call_wrapper E self M_cache = one (cache E self)"
| "call_wrapper E self (M_persist level) = one (persist E self level)"
| "call_wrapper E self M_unpersist = one (unpersist E self)"

fun call_raster :: "'h engine \<Rightarrow> constants \<Rightarrow> ref \<Rightarrow> raster_method \<Rightarrow> ('h, ref list) py" where
  "call_raster E C self (M_to_tiled_layer e l c ts m) =
     one (RasterRDD_to_tiled_layer E C self e l c ts m)"
| "call_raster E C self (M_raster_convert_data_type t) =
     one (RasterRDD_convert_data_type E C self t)"
| "call_raster E C self (M_raster_reproject c m) = one (RasterRDD_reproject E C self c m)"
| "call_raster E C self (M_cut_tiles md m) = one (RasterRDD_cut_tiles E C self md m)"
| "call_raster E C self (M_raster_tile_to_layout md m) =
     one (RasterRDD_tile_to_layout E C self md m)"
| "call_raster E C self (M_raster_reclassify vm dt bs rnw) =
     one (RasterRDD_reclassify E C self vm dt bs rnw)"

fun call_tiled :: "'h engine \<Rightarrow> constants \<Rightarrow> ref \<Rightarrow> tiled_method \<Rightarrow> ('h, ref list) py" where
  "call_tiled E C self (M_convert_data_type t) = one (TiledRasterRDD_convert_data_type E C self t)"
| "call_tiled E C self (M_reproject c e l sch ts thr m) =
     one (TiledRasterRDD_reproject E C self c e l sch ts thr m)"
| "call_tiled E C self (M_repartition n) = one (TiledRasterRDD_repartition E self n)"
| "call_tiled E C self (M_tile_to_layout l m) = one (TiledRasterRDD_tile_to_layout E C self l m)"
| "call_tiled E C self (M_pyramid z1 z2 m) = TiledRasterRDD_pyramid E C self z1 z2 m"
| "call_tiled E C self (M_focal operation nb p1 p2 p3) =
     one (TiledRasterRDD_focal E C self operation nb p1 p2 p3)"
| "call_tiled E C self (M_mask gs) = one (TiledRasterRDD_mask E self gs)"
| "call_tiled E C self (M_cost_distance gs d) = one (TiledRasterRDD_cost_distance E self gs d)"
| "call_tiled E C self (M_reclassify vm dt bs rnw) =
     one (TiledRasterRDD_reclassify E C self vm dt bs rnw)"
| "call_tiled E C self (M_add v) = one (TiledRasterRDD_add E self v)"
| "call_tiled E C self (M_radd v) = one (TiledRasterRDD_radd E self v)"
| "call_tiled E C self (M_sub v) = one (TiledRasterRDD_sub E self v)"
| "call_tiled E C self (M_rsub v) = one (TiledRasterRDD_rsub E self v)"
| "call_tiled E C self (M_mul v) = one (TiledRasterRDD_mul E self v)"
| "call_tiled E C self (M_rmul v) = one (TiledRasterRDD_rmul E self v)"
| "call_tiled E C self (M_truediv v) = one (TiledRasterRDD_truediv E self v)"
| "call_tiled E C self (M_rtruediv v) = one (TiledRasterRDD_rtruediv E self v)"

definition call_method ::
  "'h engine \<Rightarrow> constants \<Rightarrow> ref \<Rightarrow> method_call \<Rightarrow> ('h, ref list) py"
where
  "call_method E C self call =
     py_bind (get_self self) (\<lambda>s.
     case call of
       On_wrapper m \<Rightarrow> call_wrapper E self m
     | On_raster m \<Rightarrow>
         (if wrapper_class s = RasterRDD then call_raster E C self m
          else py_raise (AttributeError [''TiledRasterRDD object has no such attribute'']))
     | On_tiled m \<Rightarrow>
         (if wrapper_class s = TiledRasterRDD then call_tiled E C self m
          else py_raise (AttributeError [''RasterRDD object has no such attribute''])))"

text \<open>
  \<open>fresh_wrappers w self w' rs\<close>: the call only added objects, \<open>rs\<close> are exactly the
  added objects, each with the \<open>rdd_type\<close> of the receiver and \<open>is_cached = False\<close>.
\<close>

definition fresh_wrappers :: "'h world \<Rightarrow> ref \<Rightarrow> 'h world \<Rightarrow> ref list \<Rightarrow> bool" where
  "fresh_wrappers w self w' rs \<longleftrightarrow>
     (\<exists>news. objects w' = objects w @ news
        \<and> rs = [length (objects w)..<length (objects w) + length news]
        \<and> list_all (\<lambda>x. rdd_type x = rdd_type (objects w ! self) \<and> \<not> is_cached x) news)"

text \<open>
  Three properties of a computation, used to go through the methods one by one: it leaves
  the objects alone; if it returns, it returns one new uncached wrapper of a given
  \<open>rdd_type\<close>; if it returns, it returns one new uncached wrapper with the \<open>rdd_type\<close>
  of \<open>self\<close>.
\<close>

definition keeps_objects :: "('h, 'a) py \<Rightarrow> bool" where
  "keeps_objects m \<longleftrightarrow> (\<forall>w. objects (snd (m w)) = objects w)"

definition makes_one :: "string \<Rightarrow> ('h, ref) py \<Rightarrow> bool" where
  "makes_one t m \<longleftrightarrow>
     (\<forall>w r w'. m w = (Inr r, w') \<longrightarrow>
        r = length (objects w)
        \<and> (\<exists>x. objects w' = objects w @ [x] \<and> rdd_type x = t \<and> \<not> is_cached x))"

definition derives :: "ref \<Rightarrow> ('h, ref) py \<Rightarrow> bool" where
  "derives self m \<longleftrightarrow>
     (\<forall>w r w'. m w = (Inr r, w') \<longrightarrow>
        r = length (objects w)
        \<and> (\<exists>x. objects w' = objects w @ [x]
              \<and> rdd_type x = rdd_type (objects w ! self) \<and> \<not> is_cached x))"

section \<open>The engine behind collect_metadata, cut_tiles and tile_to_layout\<close>

text \<open>
  The remote methods \<open>collectMetadata\<close>, \<open>cutTiles\<close>, \<open>tileToLayout\<close> and
  \<open>layerMetadata\<close> are not among the sources. What the specification says about them is
  written down here as an engine whose handles are the remote collections themselves.
  Coordinates are exact rationals.
\<close>

text \<open>
  Modelled from the spec: the records of an untiled collection, which the module only passes
  along. A key is an extent, with an instant for a spatial-temporal layer; the raster has a
  cell type and cells; the record carries the CRS recorded on the raster.
\<close>

record raster_record =
  rec_extent :: extent
  rec_instant :: "int option"
  rec_crs :: crs_value
  rec_cellType :: string
  rec_cells :: "rat list"

text \<open>
  Modelled from the spec: the key of a tile of a tiled collection, absent from the sources:
  its grid cell, with the instant for a spatial-temporal layer.
\<close>

type_synonym tile_key = "spatial_key \<times> int option"

text \<open>
  Modelled from the spec: the records of a tiled collection, absent from the sources. The
  value under a key is made of the fragments of the source rasters that fall on the cell,
  in order.
\<close>

type_synonym tile_record = "tile_key \<times> raster_record list"

text \<open>
  Modelled from the spec: the remote collection behind a handle, absent from the sources.
  It is untiled, or tiled and then owns one layer metadata for its lifetime.
\<close>

datatype remote_collection =
    Untiled "raster_record list"
  | Tiled metadata "tile_record list"

text \<open>
  Modelled from the spec: which pairs of an extent and a tile layout are valid is not in the
  sources; the pair must describe a grid, that is an extent with an interior and positive
  numbers of tiles and of pixels per tile.
\<close>

definition valid_layout_definition :: "layout_definition \<Rightarrow> bool" where
  "valid_layout_definition ld \<longleftrightarrow>
     xmin (ld_extent ld) < xmax (ld_extent ld) \<and> ymin (ld_extent ld) < ymax (ld_extent ld)
     \<and> 0 < layoutCols (tileLayout ld) \<and> 0 < layoutRows (tileLayout ld)
     \<and> 0 < tileCols (tileLayout ld) \<and> 0 < tileRows (tileLayout ld)"

text \<open>
  Modelled from the spec: the addressable grid of a layout (the engine's grid is absent from
  the sources), \<open>layoutCols\<close> columns by \<open>layoutRows\<close> rows, row by row.
\<close>

definition grid_keys :: "tile_layout \<Rightarrow> spatial_key list" where
  "grid_keys l =
     concat (map (\<lambda>r. map (\<lambda>c. \<lparr>col = c, row = r\<rparr>) [0..layoutCols l - 1])
       [0..layoutRows l - 1])"

text \<open>
  Modelled from the spec: the rectangle of a grid cell, absent from the sources. The extent
  of the layout is divided evenly; columns count from the left edge and rows from the top
  edge.
\<close>

definition tile_extent :: "layout_definition \<Rightarrow> spatial_key \<Rightarrow> extent" where
  "tile_extent ld k =
     (let e = ld_extent ld;
          w = (xmax e - xmin e) / of_int (layoutCols (tileLayout ld));
          h = (ymax e - ymin e) / of_int (layoutRows (tileLayout ld))
      in \<lparr>xmin = xmin e + of_int (col k) * w,
          ymin = ymax e - (of_int (row k) + 1) * h,
          xmax = xmin e + (of_int (col k) + 1) * w,
          ymax = ymax e - of_int (row k) * h\<rparr>)"

text \<open>
  Modelled from the spec: when a source raster intersects a layout tile (the engine's test is
  absent from the sources): the two rectangles share interior points.
\<close>

definition intersects :: "extent \<Rightarrow> extent \<Rightarrow> bool" where
  "intersects a b \<longleftrightarrow>
     xmin a < xmax b \<and> xmin b < xmax a \<and> ymin a < ymax b \<and> ymin b < ymax a"

text \<open>
  Modelled from the spec: the layout tiles a source raster intersects (absent from the
  sources).
\<close>

definition tiles_of :: "layout_definition \<Rightarrow> raster_record \<Rightarrow> spatial_key list" where
  "tiles_of ld x =
     filter (\<lambda>k. intersects (rec_extent x) (tile_extent ld k)) (grid_keys (tileLayout ld))"

text \<open>
  Modelled from the spec: the remote \<open>cutTiles\<close>, absent from the sources. Cut partitions
  each source raster against every layout tile it intersects; fragments of several rasters
  that land on one tile are kept as separate records.
\<close>

definition cut :: "layout_definition \<Rightarrow> raster_record list \<Rightarrow> tile_record list" where
  "cut ld xs = concat (map (\<lambda>x. map (\<lambda>k. ((k, rec_instant x), [x])) (tiles_of ld x)) xs)"

text \<open>
  Modelled from the spec: the merge step of the remote \<open>tileToLayout\<close>, absent from the
  sources: all fragments that map to one destination key are combined into a single record
  for that key.
\<close>

fun add_fragments :: "tile_record list \<Rightarrow> tile_key \<Rightarrow> raster_record list \<Rightarrow> tile_record list"
where
  "add_fragments [] k fs = [(k, fs)]"
| "add_fragments ((k', fs') # acc) k fs =
     (if k' = k then (k', fs' @ fs) # acc else (k', fs') # add_fragments acc k fs)"

text \<open>
  Modelled from the spec: the merge of all records of a cut (part of the remote
  \<open>tileToLayout\<close>, absent from the sources), one record after the other.
\<close>

definition merge_by_key :: "tile_record list \<Rightarrow> tile_record list" where
  "merge_by_key xs = foldl (\<lambda>acc (k, fs). add_fragments acc k fs) [] xs"

text \<open>
  Modelled from the spec: the bounds of a layer metadata (computed by the engine, absent from
  the sources): the least and the greatest populated key, none when no key is populated.
\<close>

definition populated_bounds :: "spatial_key list \<Rightarrow> key_bounds option" where
  "populated_bounds ks =
     (case ks of
        [] \<Rightarrow> None
      | k # rest \<Rightarrow>
          Some \<lparr>minKey = \<lparr>col = fold min (map col rest) (col k),
                          row = fold min (map row rest) (row k)\<rparr>,
                maxKey = \<lparr>col = fold max (map col rest) (col k),
                          row = fold max (map row rest) (row k)\<rparr>\<rparr>)"

text \<open>
  Modelled from the spec: the dominant cell type of the input rasters (computed by the
  engine, absent from the sources), read as the most frequent one.
\<close>

definition dominant :: "string list \<Rightarrow> string" where
  "dominant ts = (case ts of [] \<Rightarrow> [] | _ \<Rightarrow> arg_min_list (\<lambda>t. - int (count_list ts t)) ts)"

text \<open>
  Modelled from the spec: the minimal rectangle that contains two extents, the step of the
  fold over the extents that the metadata builder of the engine (absent from the sources)
  performs.
\<close>

definition bounding_box :: "extent \<Rightarrow> extent \<Rightarrow> extent" where
  "bounding_box a b =
     \<lparr>xmin = min (xmin a) (xmin b), ymin = min (ymin a) (ymin b),
      xmax = max (xmax a) (xmax b), ymax = max (ymax a) (ymax b)\<rparr>"

text \<open>
  Modelled from the spec: the union bounding extent of all raster extents, computed by the
  metadata builder of the engine (absent from the sources) in one pass over the collection:
  the minimal rectangle containing the extent of every input raster. It is reported as it
  is; any rounding on the side of the engine is not modelled.
\<close>

definition union_extent :: "extent \<Rightarrow> extent list \<Rightarrow> extent" where
  "union_extent e es = fold (\<lambda>b a. bounding_box a b) es e"

text \<open>
  Modelled from the spec: the metadata the remote \<open>collectMetadata\<close> builds (absent from
  the sources) for a collection with a first raster \<open>x\<close> and further rasters \<open>xs\<close>: the
  union bounding extent of the rasters, combined with the resolved layout definition, the
  bounds, the CRS (the one supplied, or the one recorded on the rasters when none is
  supplied) and the dominant cell type.
\<close>

definition collected_metadata ::
  "raster_record \<Rightarrow> raster_record list \<Rightarrow> layout_definition \<Rightarrow> crs_value \<Rightarrow> metadata"
where
  "collected_metadata x xs ld c =
     \<lparr>md_extent = union_extent (rec_extent x) (map rec_extent xs),
      layoutDefinition = ld,
      bounds = populated_bounds (map (\<lambda>t. fst (fst t)) (cut ld (x # xs))),
      crs = (if crs_falsy c then rec_crs x else c),
      cellType = dominant (map rec_cellType (x # xs))\<rparr>"

text \<open>
  Modelled from the spec: the answers of the remote \<open>collectMetadata\<close> (with an explicit
  extent and layout, which are paired into the layout definition) and \<open>layerMetadata\<close>
  (a tiled collection reports the metadata it owns), both absent from the sources. A
  collection without a raster has no union extent, so no metadata is collected from it.
  Other requests are outside the modelled part.
\<close>

fun spec_answer_metadata :: "remote_collection request \<Rightarrow> string + metadata" where
  "spec_answer_metadata (R_collectMetadata (Untiled []) e l c) =
     Inl ''the collection has no raster''"
| "spec_answer_metadata (R_collectMetadata (Untiled (x # xs)) e l c) =
     (if valid_layout_definition \<lparr>ld_extent = e, tileLayout = l\<rparr> then
        Inr (collected_metadata x xs \<lparr>ld_extent = e, tileLayout = l\<rparr> c)
      else Inl ''the extent and the tile layout do not define a grid'')"
| "spec_answer_metadata (R_layerMetadata (Tiled md ts)) = Inr md"
| "spec_answer_metadata _ = Inl ''request outside the modelled part of the engine''"

text \<open>
  Modelled from the spec: the answers of the remote \<open>cutTiles\<close> and \<open>tileToLayout\<close>,
  absent from the sources. Both consume the metadata, which the tiled collection then owns;
  tile-to-layout is the same partitioning as cut followed by the merge.
\<close>

fun spec_answer_rdd :: "remote_collection request \<Rightarrow> string + remote_collection" where
  "spec_answer_rdd (R_cutTiles (Untiled xs) md m) = Inr (Tiled md (cut (layoutDefinition md) xs))"
| "spec_answer_rdd (R_tileToLayout (Untiled xs) md m) =
     Inr (Tiled md (merge_by_key (cut (layoutDefinition md) xs)))"
| "spec_answer_rdd _ = Inl ''request outside the modelled part of the engine''"

text \<open>
  Modelled from the spec: the engine made of the answers above, in place of the remote
  engine that is absent from the sources.
\<close>

definition spec_engine :: "remote_collection engine" where
  "spec_engine =
     \<lparr>answer_rdd = spec_answer_rdd,
      answer_rdds = (\<lambda>q. Inl ''request outside the modelled part of the engine''),
      answer_metadata = spec_answer_metadata,
      answer_tiles = (\<lambda>q. Inl ''request outside the modelled part of the engine'')\<rparr>"

text \<open>
  Modelled from the spec: the records of the remote collection behind a handle, which the
  sources cannot read; an untiled collection has no tile records.
\<close>

fun tiled_records :: "remote_collection \<Rightarrow> tile_record list" where
  "tiled_records (Tiled md ts) = ts"
| "tiled_records (Untiled xs) = []"

text \<open>
  Modelled from the spec: the tile records behind the wrapper that a method returned (none
  when it raised), read from the modelled remote collection.
\<close>

fun result_records :: "(py_error + ref) \<times> remote_collection world \<Rightarrow> tile_record list" where
  "result_records (Inr r, w) = tiled_records (srdd (objects w ! r))"
| "result_records (Inl e, w) = []"

section \<open>Example inputs\<close>

text \<open>
  A table of constants, an engine with fixed answers and a heap of four wrappers, on which
  the definitions are run. The general theorems hold for every table and every engine.
\<close>

definition example_constants :: constants where
  "example_constants =
     \<lparr>RESAMPLE_METHODS = [''NearestNeighbor'', ''Bilinear'', ''CubicConvolution'', ''Lanczos'',
                           ''Average'', ''Mode'', ''Median'', ''Max'', ''Min''],
      OPERATIONS = [''Sum'', ''Min'', ''Max'', ''Mean'', ''Median'', ''Mode'',
                    ''StandardDeviation'', ''Aspect'', ''Slope''],
      NEIGHBORHOODS = [''annulus'', ''nesw'', ''square'', ''wedge'', ''circle''],
      CELL_TYPES = [''bool'', ''int8'', ''uint8'', ''int16'', ''uint16'', ''int32'',
                    ''float32'', ''float64''],
      NEARESTNEIGHBOR = ''NearestNeighbor'',
      SLOPE = ''Slope'',
      ASPECT = ''Aspect'',
      SQUARE = ''square'',
      FLOAT = ''float'',
      SPATIAL = ''spatial'',
      LESSTHANOREQUALTO = ''LessThanOrEqualTo'',
      NODATAINT = - 2147483648\<rparr>"

definition example_extent :: extent where
  "example_extent = \<lparr>xmin = 0, ymin = 0, xmax = 10, ymax = 6\<rparr>"

definition example_layout :: tile_layout where
  "example_layout = \<lparr>layoutCols = 2, layoutRows = 2, tileCols = 5, tileRows = 5\<rparr>"

definition example_metadata :: metadata where
  "example_metadata =
     \<lparr>md_extent = example_extent,
      layoutDefinition = \<lparr>ld_extent = example_extent, tileLayout = example_layout\<rparr>,
      bounds = Some \<lparr>minKey = \<lparr>col = 0, row = 0\<rparr>, maxKey = \<lparr>col = 1, row = 1\<rparr>\<rparr>,
      crs = CrsStr ''+proj=longlat +datum=WGS84 +no_defs '',
      cellType = ''float32''\<rparr>"

definition other_metadata :: metadata where
  "other_metadata =
     example_metadata\<lparr>layoutDefinition :=
       \<lparr>ld_extent = example_extent,
        tileLayout = \<lparr>layoutCols = 2, layoutRows = 2, tileCols = 256, tileRows = 256\<rparr>\<rparr>\<rparr>"

fun example_answer_metadata :: "nat request \<Rightarrow> string + metadata" where
  "example_answer_metadata (R_layerMetadata h) =
     (if h = 3 then Inr other_metadata else Inr example_metadata)"
| "example_answer_metadata _ = Inr example_metadata"

definition example_engine :: "nat engine" where
  "example_engine =
     \<lparr>answer_rdd = (\<lambda>q. Inr 7),
      answer_rdds = (\<lambda>q. Inr [8, 9]),
      answer_metadata = example_answer_metadata,
      answer_tiles = (\<lambda>q. Inr [''tile''])\<rparr>"

definition example_world :: "nat world" where
  "example_world =
     \<lparr>objects =
        [\<lparr>wrapper_class = RasterRDD, geopysc = 0, rdd_type = ''spatial'', srdd = 0,
          is_cached = False\<rparr>,
         \<lparr>wrapper_class = TiledRasterRDD, geopysc = 0, rdd_type = ''spatial'', srdd = 1,
          is_cached = False\<rparr>,
         \<lparr>wrapper_class = TiledRasterRDD, geopysc = 0, rdd_type = ''spacetime'', srdd = 2,
          is_cached = False\<rparr>,
         \<lparr>wrapper_class = TiledRasterRDD, geopysc = 0, rdd_type = ''spatial'', srdd = 3,
          is_cached = False\<rparr>],
      requests = []\<rparr>"

text \<open>
  The three rasters of the tiling example (4 by 4 cells each, at the origins (0,0), (3,2)
  and (6,0)), a single raster, and a session holding one untiled collection.
\<close>

definition three_rasters :: "raster_record list" where
  "three_rasters =
     [\<lparr>rec_extent = \<lparr>xmin = 0, ymin = 0, xmax = 4, ymax = 4\<rparr>, rec_instant = None,
       rec_crs = CrsInt 4326, rec_cellType = ''float32'', rec_cells = replicate 16 1\<rparr>,
      \<lparr>rec_extent = \<lparr>xmin = 3, ymin = 2, xmax = 7, ymax = 6\<rparr>, rec_instant = None,
       rec_crs = CrsInt 4326, rec_cellType = ''float32'', rec_cells = replicate 16 2\<rparr>,
      \<lparr>rec_extent = \<lparr>xmin = 6, ymin = 0, xmax = 10, ymax = 4\<rparr>, rec_instant = None,
       rec_crs = CrsInt 4326, rec_cellType = ''float32'', rec_cells = replicate 16 3\<rparr>]"

definition spec_world :: "raster_record list \<Rightarrow> remote_collection world" where
  "spec_world xs =
     \<lparr>objects = [\<lparr>wrapper_class = RasterRDD, geopysc = 0, rdd_type = ''spatial'',
                  srdd = Untiled xs, is_cached = False\<rparr>],
      requests = []\<rparr>"

definition one_raster :: "raster_record list" where
  "one_raster =
     [\<lparr>rec_extent = \<lparr>xmin = 0, ymin = 0, xmax = 4, ymax = 4\<rparr>, rec_instant = None,
       rec_crs = CrsInt 4326, rec_cellType = ''float32'', rec_cells = replicate 16 1\<rparr>]"

section \<open>Properties\<close>

subsection \<open>Running a computation\<close>

lemma py_raise_apply: "py_raise e w = (Inl e, w)"
  by (simp add: py_raise_def)

lemma py_bind_apply:
  "py_bind m f w = (case m w of (Inl e, w') \<Rightarrow> (Inl e, w') | (Inr a, w') \<Rightarrow> f a w')"
  by (simp add: py_bind_def)

lemma get_self_live: "r < length (objects w) \<Longrightarrow> get_self r w = (Inr (objects w ! r), w)"
  by (simp add: get_self_def)

lemma remote_Inr:
  "answer q = Inr a \<Longrightarrow> remote answer q w = (Inr a, w\<lparr>requests := requests w @ [q]\<rparr>)"
  by (simp add: remote_def)

subsection \<open>Validation of the resample method\<close>

lemma to_tiled_layer_collects_before_check:
  assumes "self < length (objects w)"
    and "answer_metadata E (R_collectMetadata_size (srdd (objects w ! self)) (str_int ts)
           (crs_int_to_str (if crs_falsy c then CrsStr [] else c))) = Inr md"
    and "m \<notin> set (RESAMPLE_METHODS C)"
  shows "RasterRDD_to_tiled_layer E C self None None c ts m w =
           (Inl (unknown_resample_method m),
            w\<lparr>requests := requests w @
               [R_collectMetadata_size (srdd (objects w ! self)) (str_int ts)
                  (crs_int_to_str (if crs_falsy c then CrsStr [] else c))]\<rparr>)"
  using assms
  by (simp add: RasterRDD_to_tiled_layer_def RasterRDD_collect_metadata_def
      RasterRDD_tile_to_layout_def py_bind_apply get_self_live remote_Inr py_raise_apply Let_def)

text \<open>
  Claim C3, as amended. Each of \<open>cut_tiles\<close>, \<open>tile_to_layout\<close>, \<open>reproject\<close> and
  \<open>pyramid\<close>, on the untiled and on the tiled class, called with a resample method that is
  not in \<open>RESAMPLE_METHODS\<close>, raises \<open>ValueError\<close> (the argument error of the
  specification) and returns the session as it was: no request has been sent and no object
  has changed. \<open>to_tiled_layer\<close>, which also takes a resample method, is the exception:
  it runs \<open>collect_metadata\<close> first, whose request is sent (when extent and layout come
  together or are both left out), and the resample method is rejected only afterwards, if
  the metadata was collected.
\<close>

theorem resample_method_checked_first:
  assumes "m \<notin> set (RESAMPLE_METHODS C)"
  shows "RasterRDD_cut_tiles E C self md m w = (Inl (unknown_resample_method m), w)
       \<and> RasterRDD_tile_to_layout E C self md m w = (Inl (unknown_resample_method m), w)
       \<and> RasterRDD_reproject E C self t m w = (Inl (unknown_resample_method m), w)
       \<and> TiledRasterRDD_reproject E C self t ext lay sch ts thr m w
           = (Inl (unknown_resample_method m), w)
       \<and> TiledRasterRDD_tile_to_layout E C self l m w = (Inl (unknown_resample_method m), w)
       \<and> TiledRasterRDD_pyramid E C self z1 z2 m w = (Inl (unknown_resample_method m), w)
       \<and> RasterRDD_to_tiled_layer E C self ext lay c ts m w =
           (case RasterRDD_collect_metadata E self ext lay c ts w of
              (Inl err, w1) \<Rightarrow> (Inl err, w1)
            | (Inr collected, w1) \<Rightarrow> (Inl (unknown_resample_method m), w1))
       \<and> (self < length (objects w) \<longrightarrow>
            requests (snd (RasterRDD_to_tiled_layer E C self None None c ts m w)) =
              requests w @
                [R_collectMetadata_size (srdd (objects w ! self)) (str_int ts)
                   (crs_int_to_str (if crs_falsy c then CrsStr [] else c))]
          \<and> requests (snd (RasterRDD_to_tiled_layer E C self (Some e) (Some l) c ts m w)) =
              requests w @
                [R_collectMetadata (srdd (objects w ! self)) e l
                   (crs_int_to_str (if crs_falsy c then CrsStr [] else c))])"
proof -
  have six: "RasterRDD_cut_tiles E C self md m w = (Inl (unknown_resample_method m), w)
       \<and> RasterRDD_tile_to_layout E C self md m w = (Inl (unknown_resample_method m), w)
       \<and> RasterRDD_reproject E C self t m w = (Inl (unknown_resample_method m), w)
       \<and> TiledRasterRDD_reproject E C self t ext lay sch ts thr m w
           = (Inl (unknown_resample_method m), w)
       \<and> TiledRasterRDD_tile_to_layout E C self l m w = (Inl (unknown_resample_method m), w)
       \<and> TiledRasterRDD_pyramid E C self z1 z2 m w = (Inl (unknown_resample_method m), w)"
    using assms
    by (simp add: RasterRDD_cut_tiles_def RasterRDD_tile_to_layout_def RasterRDD_reproject_def
        TiledRasterRDD_reproject_def TiledRasterRDD_tile_to_layout_def
        TiledRasterRDD_pyramid_def py_raise_apply)
  have after: "RasterRDD_to_tiled_layer E C self ext lay c ts m w =
           (case RasterRDD_collect_metadata E self ext lay c ts w of
              (Inl err, w1) \<Rightarrow> (Inl err, w1)
            | (Inr collected, w1) \<Rightarrow> (Inl (unknown_resample_method m), w1))"
    using assms
    by (simp add: RasterRDD_to_tiled_layer_def RasterRDD_tile_to_layout_def py_bind_def
        py_raise_def split: prod.splits sum.splits)
  have sent: "self < length (objects w) \<longrightarrow>
            requests (snd (RasterRDD_to_tiled_layer E C self None None c ts m w)) =
              requests w @
                [R_collectMetadata_size (srdd (objects w ! self)) (str_int ts)
                   (crs_int_to_str (if crs_falsy c then CrsStr [] else c))]
          \<and> requests (snd (RasterRDD_to_tiled_layer E C self (Some e) (Some l) c ts m w)) =
              requests w @
                [R_collectMetadata (srdd (objects w ! self)) e l
                   (crs_int_to_str (if crs_falsy c then CrsStr [] else c))]"
    using assms
    by (auto simp: RasterRDD_to_tiled_layer_def RasterRDD_collect_metadata_def
        RasterRDD_tile_to_layout_def py_bind_def get_self_def remote_def py_raise_def Let_def
        split: sum.splits)
  from six after sent show ?thesis by (intro conjI) simp_all
qed

theorem resample_method_checked_first_witness:
  "''Cubic'' \<notin> set (RESAMPLE_METHODS example_constants)
   \<and> RasterRDD_cut_tiles example_engine example_constants 0 example_metadata ''Cubic''
        example_world = (Inl (unknown_resample_method ''Cubic''), example_world)
   \<and> TiledRasterRDD_pyramid example_engine example_constants 1 12 0 ''Cubic'' example_world
        = (Inl (unknown_resample_method ''Cubic''), example_world)
   \<and> requests (snd (RasterRDD_to_tiled_layer example_engine example_constants 0
        (Some example_extent) (Some example_layout) CrsNone 256 ''Cubic'' example_world))
        = [R_collectMetadata 0 example_extent example_layout (CrsStr [])]"
proof -
  have h: "''Cubic'' \<notin> set (RESAMPLE_METHODS example_constants)"
    by (simp add: example_constants_def)
  have live: "0 < length (objects example_world)" "srdd (objects example_world ! 0) = 0"
    "requests example_world = []"
    by (simp_all add: example_world_def)
  show ?thesis
    using h live
      resample_method_checked_first [OF h, of example_engine 0 example_metadata example_world]
      resample_method_checked_first [OF h, of example_engine 1 _ example_world]
      resample_method_checked_first [OF h, where E = example_engine and self = 0
        and w = example_world and c = CrsNone and ts = 256 and e = example_extent
        and l = example_layout]
    by simp
qed

text \<open>
  \<open>to_tiled_layer\<close> with an unknown resample method: the request of \<open>collect_metadata\<close>
  has crossed to the engine when the \<open>ValueError\<close> is raised.
\<close>

theorem to_tiled_layer_request_before_check_counterexample:
  "RasterRDD_to_tiled_layer example_engine example_constants 0 None None CrsNone 256 ''Cubic''
       example_world
     = (Inl (ValueError [''Cubic'', '' Is not a known resample method.'']),
        example_world\<lparr>requests := [R_collectMetadata_size 0 ''256'' (CrsStr [])]\<rparr>)"
proof -
  have s: "str_int 256 = ''256''" by code_simp
  show ?thesis
    by (simp add: RasterRDD_to_tiled_layer_def RasterRDD_collect_metadata_def
        RasterRDD_tile_to_layout_def py_bind_def get_self_def remote_def py_raise_def
        unknown_resample_method_def s example_world_def example_engine_def
        example_constants_def)
qed

subsection \<open>Extent and layout must come together\<close>

text \<open>
  Claim C2, as amended. \<open>collect_metadata\<close> called with exactly one of extent and layout
  raises \<open>TypeError\<close> (the ambiguous-specification error of the specification) whichever side
  is missing, and sends nothing. The tiled \<open>reproject\<close> does the same when its resample method
  is a known one; it checks the resample method first.
\<close>

theorem one_sided_extent_or_layout_rejected:
  "RasterRDD_collect_metadata E self (Some e) None c ts w
     = (Inl (TypeError [''Could not collect metadata with {} and {}'']), w)
   \<and> RasterRDD_collect_metadata E self None (Some l) c ts w
     = (Inl (TypeError [''Could not collect metadata with {} and {}'']), w)
   \<and> (m \<in> set (RESAMPLE_METHODS C) \<longrightarrow>
        TiledRasterRDD_reproject E C self t (Some e) None sch ts thr m w
          = (Inl (TypeError [''Could not collect reproject RDD with {} and {}'']), w)
      \<and> TiledRasterRDD_reproject E C self t None (Some l) sch ts thr m w
          = (Inl (TypeError [''Could not collect reproject RDD with {} and {}'']), w))"
  by (simp add: RasterRDD_collect_metadata_def TiledRasterRDD_reproject_def py_raise_apply Let_def)

theorem one_sided_extent_or_layout_rejected_witness:
  "''Bilinear'' \<in> set (RESAMPLE_METHODS example_constants)
   \<and> TiledRasterRDD_reproject example_engine example_constants 1 (CrsInt 3857)
       (Some example_extent) None ''float'' 256 (1 / 10) ''Bilinear'' example_world
     = (Inl (TypeError [''Could not collect reproject RDD with {} and {}'']), example_world)
   \<and> TiledRasterRDD_reproject example_engine example_constants 1 (CrsInt 3857)
       None (Some example_layout) ''float'' 256 (1 / 10) ''Bilinear'' example_world
     = (Inl (TypeError [''Could not collect reproject RDD with {} and {}'']), example_world)
   \<and> RasterRDD_collect_metadata example_engine 0 (Some example_extent) None CrsNone 256
       example_world
     = (Inl (TypeError [''Could not collect metadata with {} and {}'']), example_world)"
  using one_sided_extent_or_layout_rejected [of example_engine _ example_extent _ _
      example_world example_layout "''Bilinear''" example_constants]
    one_sided_extent_or_layout_rejected [of example_engine 0 example_extent CrsNone 256
      example_world]
  by (simp add: example_constants_def)

text \<open>
  With an unknown resample method the tiled \<open>reproject\<close> raises \<open>ValueError\<close> although only
  the extent is supplied.
\<close>

theorem one_sided_reproject_counterexample:
  "TiledRasterRDD_reproject example_engine example_constants 1 (CrsInt 3857)
       (Some example_extent) None ''float'' 256 (1 / 10) ''Cubic'' example_world
     = (Inl (ValueError [''Cubic'', '' Is not a known resample method.'']), example_world)"
  by (simp add: TiledRasterRDD_reproject_def example_constants_def py_raise_apply
      unknown_resample_method_def)

subsection \<open>Unknown cell types\<close>

lemma raster_convert_data_type_unknown:
  "t \<notin> set (CELL_TYPES C) \<Longrightarrow>
   RasterRDD_convert_data_type E C self t w
     = (Inl (ValueError [t, ''Is not a know Cell Type'']), w)"
  by (simp add: RasterRDD_convert_data_type_def py_raise_apply)

lemma tiled_convert_data_type_sends:
  assumes "self < length (objects w)"
    and "answer_rdd E (R_convertDataType (srdd (objects w ! self)) t) = Inr h"
  shows "TiledRasterRDD_convert_data_type E C self t w =
           (Inr (length (objects w)),
            w\<lparr>requests := requests w @ [R_convertDataType (srdd (objects w ! self)) t],
               objects := objects w @
                 [\<lparr>wrapper_class = TiledRasterRDD, geopysc = geopysc (objects w ! self),
                   rdd_type = rdd_type (objects w ! self), srdd = h, is_cached = False\<rparr>]\<rparr>)"
  using assms
  by (simp add: TiledRasterRDD_convert_data_type_def py_bind_apply get_self_live remote_Inr
      TiledRasterRDD_init_def new_wrapper_def)

text \<open>
  Claim C4. \<open>RasterRDD.convert_data_type\<close> rejects a cell type that is not in
  \<open>CELL_TYPES\<close> and leaves the session as it was. \<open>TiledRasterRDD.convert_data_type\<close> has
  no such check: with the same unknown cell type it sends the conversion request and wraps
  the answer.
\<close>

theorem tiled_convert_data_type_unchecked:
  "''float128'' \<notin> set (CELL_TYPES example_constants)
   \<and> RasterRDD_convert_data_type example_engine example_constants 0 ''float128'' example_world
       = (Inl (ValueError [''float128'', ''Is not a know Cell Type'']), example_world)
   \<and> TiledRasterRDD_convert_data_type example_engine example_constants 1 ''float128''
       example_world
       = (Inr 4,
          example_world
            \<lparr>requests := [R_convertDataType 1 ''float128''],
             objects := objects example_world @
               [\<lparr>wrapper_class = TiledRasterRDD, geopysc = 0, rdd_type = ''spatial'',
                 srdd = 7, is_cached = False\<rparr>]\<rparr>)"
  by (simp add: RasterRDD_convert_data_type_def TiledRasterRDD_convert_data_type_def
      py_bind_apply get_self_def remote_def TiledRasterRDD_init_def new_wrapper_def
      py_raise_apply example_world_def example_constants_def example_engine_def)

subsection \<open>Lookup outside the key bounds\<close>

text \<open>
  Claim C5. On a spatial tiled layer whose metadata records key bounds, \<open>lookup\<close> of a
  column or row outside the bounds raises \<open>IndexError\<close> (the out-of-bounds error of the
  specification); the only request sent is the one that reads the metadata, so no tiles
  are asked for and none returned.
\<close>

theorem lookup_outside_bounds_raises:
  assumes "self < length (objects w)"
    and "rdd_type (objects w ! self) = SPATIAL C"
    and "answer_metadata E (R_layerMetadata (srdd (objects w ! self))) = Inr md"
    and "bounds md = Some b"
    and "c < col (minKey b) \<or> c > col (maxKey b) \<or> r < row (minKey b) \<or> r > row (maxKey b)"
  shows "\<exists>msg. TiledRasterRDD_lookup E C self c r w =
           (Inl (IndexError msg),
            w\<lparr>requests := requests w @ [R_layerMetadata (srdd (objects w ! self))]\<rparr>)"
  using assms
  by (auto simp add: TiledRasterRDD_lookup_def TiledRasterRDD_layer_metadata_def
      py_bind_apply get_self_live remote_Inr py_raise_apply Let_def)

theorem lookup_outside_bounds_raises_witness:
  "TiledRasterRDD_lookup example_engine example_constants 1 2 0 example_world =
     (Inl (IndexError [''column out of bounds'']),
      example_world\<lparr>requests := [R_layerMetadata 1]\<rparr>)
   \<and> TiledRasterRDD_lookup example_engine example_constants 1 0 (- 1) example_world =
     (Inl (IndexError [''row out of bounds'']),
      example_world\<lparr>requests := [R_layerMetadata 1]\<rparr>)"
proof -
  have a: "1 < length (objects example_world)"
    and b: "rdd_type (objects example_world ! 1) = SPATIAL example_constants"
    and c: "answer_metadata example_engine (R_layerMetadata (srdd (objects example_world ! 1)))
              = Inr example_metadata"
    and d: "bounds example_metadata
              = Some \<lparr>minKey = \<lparr>col = 0, row = 0\<rparr>, maxKey = \<lparr>col = 1, row = 1\<rparr>\<rparr>"
    by (simp_all add: example_world_def example_constants_def example_engine_def
        example_metadata_def)
  have "\<exists>msg. TiledRasterRDD_lookup example_engine example_constants 1 2 0 example_world =
           (Inl (IndexError msg),
            example_world\<lparr>requests := requests example_world @
              [R_layerMetadata (srdd (objects example_world ! 1))]\<rparr>)"
    by (rule lookup_outside_bounds_raises [OF a b c d]) simp
  moreover have "\<exists>msg. TiledRasterRDD_lookup example_engine example_constants 1 0 (- 1)
       example_world =
           (Inl (IndexError msg),
            example_world\<lparr>requests := requests example_world @
              [R_layerMetadata (srdd (objects example_world ! 1))]\<rparr>)"
    by (rule lookup_outside_bounds_raises [OF a b c d]) simp
  ultimately show ?thesis
    by (simp add: TiledRasterRDD_lookup_def TiledRasterRDD_layer_metadata_def py_bind_apply
        get_self_def remote_def py_raise_apply example_world_def example_constants_def
        example_engine_def example_metadata_def)
qed

subsection \<open>Grouped keys of a reclassification map\<close>

lemma expand_value_map_append:
  "expand_value_map dt (xs @ ys) d =
     (case expand_value_map dt xs d of Inl e \<Rightarrow> Inl e | Inr d' \<Rightarrow> expand_value_map dt ys d')"
  by (induction xs arbitrary: d) (auto split: sum.splits)

lemma expand_value_map_scalars:
  "list_all (\<lambda>k. isinstance k dt) ks \<Longrightarrow>
   expand_value_map dt (map (\<lambda>k. (k, v)) ks) d = Inr (foldl (\<lambda>d k. dict_set d k v) d ks)"
  by (induction ks arbitrary: d) auto

lemma expand_value_map_group:
  "expand_value_map dt [(PyTuple ks, v)] d = Inr (foldl (\<lambda>d k. dict_set d k v) d ks)"
  by simp

lemma expand_value_map_group_expanded:
  assumes "list_all (\<lambda>k. isinstance k dt) ks"
  shows "expand_value_map dt (before @ [(PyTuple ks, v)] @ after) d
       = expand_value_map dt (before @ map (\<lambda>k. (k, v)) ks @ after) d"
  using assms
  by (simp only: expand_value_map_append expand_value_map_group expand_value_map_scalars)

text \<open>
  Claim C6, as amended. When every member of a group is an instance of \<open>data_type\<close>,
  reclassifying with the grouped entry is the same computation as reclassifying with the
  group replaced, in place, by one entry per member with the value of the group: for the
  builder \<open>_reclassify\<close> and for the \<open>reclassify\<close> method of both classes. (The list on
  the right is the item list of a dictionary when the members of the group are distinct
  and none of them is a key of the map already.)
\<close>

theorem grouped_key_equals_expanded_entries:
  assumes "list_all (\<lambda>k. isinstance k data_type) ks"
  shows "module_reclassify E C h (before @ [(PyTuple ks, v)] @ after) data_type bs rnw
       = module_reclassify E C h (before @ map (\<lambda>k. (k, v)) ks @ after) data_type bs rnw
       \<and> RasterRDD_reclassify E C self (before @ [(PyTuple ks, v)] @ after) data_type bs rnw
       = RasterRDD_reclassify E C self (before @ map (\<lambda>k. (k, v)) ks @ after) data_type bs rnw
       \<and> TiledRasterRDD_reclassify E C self (before @ [(PyTuple ks, v)] @ after) data_type bs
           rnw
       = TiledRasterRDD_reclassify E C self (before @ map (\<lambda>k. (k, v)) ks @ after) data_type bs
           rnw"
  unfolding module_reclassify_def RasterRDD_reclassify_def TiledRasterRDD_reclassify_def
  by (simp only: expand_value_map_group_expanded [OF assms])

theorem grouped_key_equals_expanded_entries_witness:
  "list_all (\<lambda>k. isinstance k Int_type) [PyInt 1, PyInt 2, PyInt 3]
   \<and> module_reclassify example_engine example_constants 0
       [(PyTuple [PyInt 1, PyInt 2, PyInt 3], PyInt 9)] Int_type ''LessThanOrEqualTo'' None
   = module_reclassify example_engine example_constants 0
       [(PyInt 1, PyInt 9), (PyInt 2, PyInt 9), (PyInt 3, PyInt 9)] Int_type
       ''LessThanOrEqualTo'' None"
  using grouped_key_equals_expanded_entries
    [of Int_type "[PyInt 1, PyInt 2, PyInt 3]" example_engine example_constants 0 "[]"
      "PyInt 9" "[]" "''LessThanOrEqualTo''" None 0]
  by simp

text \<open>
  With \<open>data_type = float\<close> the group of the integers 1, 2, 3 is accepted, while the three
  entries with the integer keys 1, 2, 3 raise \<open>TypeError\<close>: an integer key is not an
  instance of \<open>float\<close>, so it is iterated.
\<close>

theorem grouped_key_float_counterexample:
  "module_reclassify example_engine example_constants 0
       [(PyTuple [PyInt 1, PyInt 2, PyInt 3], PyInt 9)] Float_type ''LessThanOrEqualTo'' None
       example_world
     = (Inr 7,
        example_world\<lparr>requests :=
          [R_reclassifyDouble 0 [(PyInt 1, PyInt 9), (PyInt 2, PyInt 9), (PyInt 3, PyInt 9)]
             ''LessThanOrEqualTo'' PyNaN]\<rparr>)
   \<and> module_reclassify example_engine example_constants 0
       [(PyInt 1, PyInt 9), (PyInt 2, PyInt 9), (PyInt 3, PyInt 9)] Float_type
       ''LessThanOrEqualTo'' None example_world
     = (Inl (TypeError [''int object is not iterable'']), example_world)"
  by (simp add: module_reclassify_def remote_def py_raise_apply example_engine_def
      example_world_def)

subsection \<open>The no-data replacement\<close>

text \<open>
  Claim C7. The replacement is tested with \<open>not replace_nodata_with\<close>, so a replacement
  of 0 (or 0.0) counts as not supplied: the integer variant receives \<open>NODATAINT\<close> and
  the floating-point variant NaN instead of the 0 supplied. A non-zero replacement is passed
  on.
\<close>

theorem zero_replacement_is_dropped:
  "module_reclassify example_engine C 0 [(PyInt 1, PyInt 5)] Int_type bs (Some (PyInt 0))
       example_world
     = (Inr 7,
        example_world\<lparr>requests :=
          [R_reclassify 0 [(PyInt 1, PyInt 5)] bs (PyInt (NODATAINT C))]\<rparr>)
   \<and> module_reclassify example_engine C 0 [(PyFloat 1, PyFloat 5)] Float_type bs
       (Some (PyFloat 0)) example_world
     = (Inr 7,
        example_world\<lparr>requests :=
          [R_reclassifyDouble 0 [(PyFloat 1, PyFloat 5)] bs PyNaN]\<rparr>)
   \<and> module_reclassify example_engine C 0 [(PyInt 1, PyInt 5)] Int_type bs (Some (PyInt 3))
       example_world
     = (Inr 7,
        example_world\<lparr>requests :=
          [R_reclassify 0 [(PyInt 1, PyInt 5)] bs (PyInt 3)]\<rparr>)"
  by (simp add: module_reclassify_def remote_def example_engine_def example_world_def)

subsection \<open>Arithmetic on two tiled collections\<close>

lemma process_operation_rdd_type_mismatch:
  assumes "self < length (objects w)" and "r < length (objects w)"
    and "wrapper_class (objects w ! r) = TiledRasterRDD"
    and "rdd_type (objects w ! self) \<noteq> rdd_type (objects w ! r)"
  shows "process_operation E self (V_object r) operation w
       = (Inl (ValueError [''Both TiledRasterRDDs need to have the same rdd_type'']), w)"
  using assms
  by (simp add: process_operation_def py_bind_apply get_self_live py_raise_apply)

lemma process_operation_layout_mismatch:
  assumes "self < length (objects w)" and "r < length (objects w)"
    and "wrapper_class (objects w ! r) = TiledRasterRDD"
    and "rdd_type (objects w ! self) = rdd_type (objects w ! r)"
    and "answer_metadata E (R_layerMetadata (srdd (objects w ! self))) = Inr m1"
    and "answer_metadata E (R_layerMetadata (srdd (objects w ! r))) = Inr m2"
    and "tileLayout (layoutDefinition m1) \<noteq> tileLayout (layoutDefinition m2)"
  shows "process_operation E self (V_object r) operation w
       = (Inl (ValueError [''Both TiledRasterRDDs need to have the same layout'']),
          w\<lparr>requests := requests w @
             [R_layerMetadata (srdd (objects w ! self)),
              R_layerMetadata (srdd (objects w ! r))]\<rparr>)"
  using assms
  by (simp add: process_operation_def TiledRasterRDD_layer_metadata_def py_bind_apply
      get_self_live remote_Inr py_raise_apply)

text \<open>
  Claim C9, as amended. For \<open>+\<close>, \<open>-\<close>, \<open>*\<close> and \<open>/\<close> on two tiled collections:
  when the \<open>rdd_type\<close>s differ, \<open>ValueError\<close> (the type-mismatch error of the
  specification) is raised before any request; when the \<open>rdd_type\<close>s agree and the tile
  layouts differ, it is raised after the two requests that read the layer metadata of the
  operands and before any arithmetic request.
\<close>

theorem mismatched_tiled_operands_rejected:
  assumes "self < length (objects w)" and "r < length (objects w)"
    and "wrapper_class (objects w ! r) = TiledRasterRDD"
  shows "(rdd_type (objects w ! self) \<noteq> rdd_type (objects w ! r) \<longrightarrow>
            list_all
              (\<lambda>f. f self (V_object r) w =
                 (Inl (ValueError [''Both TiledRasterRDDs need to have the same rdd_type'']), w))
              [TiledRasterRDD_add E, TiledRasterRDD_sub E, TiledRasterRDD_mul E,
               TiledRasterRDD_truediv E])
       \<and> (rdd_type (objects w ! self) = rdd_type (objects w ! r)
          \<and> answer_metadata E (R_layerMetadata (srdd (objects w ! self))) = Inr m1
          \<and> answer_metadata E (R_layerMetadata (srdd (objects w ! r))) = Inr m2
          \<and> tileLayout (layoutDefinition m1) \<noteq> tileLayout (layoutDefinition m2) \<longrightarrow>
            list_all
              (\<lambda>f. f self (V_object r) w =
                 (Inl (ValueError [''Both TiledRasterRDDs need to have the same layout'']),
                  w\<lparr>requests := requests w @
                     [R_layerMetadata (srdd (objects w ! self)),
                      R_layerMetadata (srdd (objects w ! r))]\<rparr>))
              [TiledRasterRDD_add E, TiledRasterRDD_sub E, TiledRasterRDD_mul E,
               TiledRasterRDD_truediv E])"
  using assms
  by (simp add: TiledRasterRDD_add_def TiledRasterRDD_sub_def TiledRasterRDD_mul_def
      TiledRasterRDD_truediv_def process_operation_rdd_type_mismatch
      process_operation_layout_mismatch)

theorem mismatched_tiled_operands_rejected_witness:
  "TiledRasterRDD_add example_engine 1 (V_object 2) example_world
     = (Inl (ValueError [''Both TiledRasterRDDs need to have the same rdd_type'']),
        example_world)
   \<and> TiledRasterRDD_truediv example_engine 1 (V_object 3) example_world
     = (Inl (ValueError [''Both TiledRasterRDDs need to have the same layout'']),
        example_world\<lparr>requests := [R_layerMetadata 1, R_layerMetadata 3]\<rparr>)"
proof -
  have a: "1 < length (objects example_world)" "2 < length (objects example_world)"
    "3 < length (objects example_world)"
    "wrapper_class (objects example_world ! 2) = TiledRasterRDD"
    "wrapper_class (objects example_world ! 3) = TiledRasterRDD"
    by (simp_all add: example_world_def)
  have b: "rdd_type (objects example_world ! 1) \<noteq> rdd_type (objects example_world ! 2)"
    "rdd_type (objects example_world ! 1) = rdd_type (objects example_world ! 3)"
    "srdd (objects example_world ! 1) = 1" "srdd (objects example_world ! 3) = 3"
    "requests example_world = []"
    by (simp_all add: example_world_def)
  have c: "answer_metadata example_engine (R_layerMetadata 1) = Inr example_metadata"
    "answer_metadata example_engine (R_layerMetadata 3) =
       Inr other_metadata"
    "tileLayout (layoutDefinition example_metadata) \<noteq>
     tileLayout (layoutDefinition other_metadata)"
    by (simp_all add: example_engine_def example_metadata_def example_layout_def
        other_metadata_def)
  from mismatched_tiled_operands_rejected [OF a(1) a(2) a(4), of example_engine]
    mismatched_tiled_operands_rejected [OF a(1) a(3) a(5), of example_engine
      example_metadata other_metadata]
    b c
  show ?thesis by simp
qed

text \<open>
  Two requests have been sent when the layouts are found to differ.
\<close>

theorem layout_mismatch_after_requests_counterexample:
  "TiledRasterRDD_add example_engine 1 (V_object 3) example_world
     = (Inl (ValueError [''Both TiledRasterRDDs need to have the same layout'']),
        example_world\<lparr>requests := [R_layerMetadata 1, R_layerMetadata 3]\<rparr>)"
  by (simp add: TiledRasterRDD_add_def process_operation_def TiledRasterRDD_layer_metadata_def
      py_bind_def get_self_def remote_def py_raise_def example_world_def example_engine_def
      example_metadata_def example_layout_def other_metadata_def)

subsection \<open>Derived collections\<close>

lemma keeps_raise: "keeps_objects (py_raise e)"
  by (simp add: keeps_objects_def py_raise_def)

lemma keeps_return: "keeps_objects (py_return a)"
  by (simp add: keeps_objects_def py_return_def)

lemma keeps_get_self: "keeps_objects (get_self r)"
  by (simp add: keeps_objects_def get_self_def)

lemma keeps_remote: "keeps_objects (remote f q)"
  by (simp add: keeps_objects_def remote_def)

lemma keeps_bind:
  "keeps_objects m \<Longrightarrow> (\<And>a. keeps_objects (f a)) \<Longrightarrow> keeps_objects (py_bind m f)"
  by (auto simp: keeps_objects_def py_bind_def split: prod.splits sum.splits)
    (metis snd_conv)+

lemma keeps_if: "keeps_objects a \<Longrightarrow> keeps_objects b \<Longrightarrow> keeps_objects (if c then a else b)"
  by simp

lemmas keeps_intros = keeps_raise keeps_return keeps_get_self keeps_remote keeps_bind keeps_if

lemma keeps_srdds_of: "keeps_objects (srdds_of rs)"
  by (induction rs) (auto intro!: keeps_intros)

lemma keeps_layer_metadata: "keeps_objects (TiledRasterRDD_layer_metadata E r)"
  unfolding TiledRasterRDD_layer_metadata_def by (intro keeps_intros)

lemma keeps_module_reclassify: "keeps_objects (module_reclassify E C h vm dt bs rnw)"
  unfolding module_reclassify_def by (auto split: sum.splits intro!: keeps_intros)

lemma keeps_collect_metadata: "keeps_objects (RasterRDD_collect_metadata E self e l c ts)"
  unfolding RasterRDD_collect_metadata_def Let_def
  by (auto split: option.splits intro!: keeps_intros)

lemma makes_one_init:
  "makes_one t (TiledRasterRDD_init g t h)" "makes_one t (RasterRDD_init g t h)"
  by (auto simp: makes_one_def TiledRasterRDD_init_def RasterRDD_init_def new_wrapper_def)

lemma makes_one_raise: "makes_one t (py_raise e)"
  by (simp add: makes_one_def py_raise_def)

lemma makes_one_bind:
  assumes "keeps_objects m" and "\<And>a. makes_one t (f a)"
  shows "makes_one t (py_bind m f)"
  unfolding makes_one_def
proof (intro allI impI)
  fix w r w'
  assume run: "py_bind m f w = (Inr r, w')"
  obtain res w1 where mw: "m w = (res, w1)" by (cases "m w")
  with assms(1) have o: "objects w1 = objects w"
    by (metis keeps_objects_def snd_conv)
  from run mw obtain a where "res = Inr a" and fa: "f a w1 = (Inr r, w')"
    by (cases res) (auto simp: py_bind_def)
  from assms(2) [of a] fa
  have "r = length (objects w1)
      \<and> (\<exists>x. objects w' = objects w1 @ [x] \<and> rdd_type x = t \<and> \<not> is_cached x)"
    unfolding makes_one_def by blast
  then show "r = length (objects w)
      \<and> (\<exists>x. objects w' = objects w @ [x] \<and> rdd_type x = t \<and> \<not> is_cached x)"
    by (simp only: o)
qed

lemma makes_one_if: "makes_one t a \<Longrightarrow> makes_one t b \<Longrightarrow> makes_one t (if c then a else b)"
  by simp

lemmas makes_one_intros = makes_one_init makes_one_raise makes_one_bind makes_one_if

lemma derives_raise: "derives self (py_raise e)"
  by (simp add: derives_def py_raise_def)

lemma derives_if: "derives self a \<Longrightarrow> derives self b \<Longrightarrow> derives self (if c then a else b)"
  by simp

lemma derives_get_self:
  assumes "\<And>s. makes_one (rdd_type s) (f s)"
  shows "derives self (py_bind (get_self self) f)"
  unfolding derives_def
proof (intro allI impI)
  fix w r w'
  assume run: "py_bind (get_self self) f w = (Inr r, w')"
  then have live: "self < length (objects w)"
    by (auto simp: py_bind_def get_self_def split: if_splits)
  with run have "f (objects w ! self) w = (Inr r, w')"
    by (simp add: py_bind_def get_self_def)
  with assms [of "objects w ! self"]
  show "r = length (objects w)
      \<and> (\<exists>x. objects w' = objects w @ [x]
            \<and> rdd_type x = rdd_type (objects w ! self) \<and> \<not> is_cached x)"
    unfolding makes_one_def by blast
qed

lemma derives_after:
  assumes "keeps_objects m" and "\<And>a. derives self (f a)"
  shows "derives self (py_bind m f)"
  unfolding derives_def
proof (intro allI impI)
  fix w r w'
  assume run: "py_bind m f w = (Inr r, w')"
  obtain res w1 where mw: "m w = (res, w1)" by (cases "m w")
  with assms(1) have o: "objects w1 = objects w"
    by (metis keeps_objects_def snd_conv)
  from run mw obtain a where "res = Inr a" and fa: "f a w1 = (Inr r, w')"
    by (cases res) (auto simp: py_bind_def)
  from assms(2) [of a] fa
  have "r = length (objects w1)
      \<and> (\<exists>x. objects w' = objects w1 @ [x]
            \<and> rdd_type x = rdd_type (objects w1 ! self) \<and> \<not> is_cached x)"
    unfolding derives_def by blast
  then show "r = length (objects w)
      \<and> (\<exists>x. objects w' = objects w @ [x]
            \<and> rdd_type x = rdd_type (objects w ! self) \<and> \<not> is_cached x)"
    by (simp only: o)
qed

lemma derives_raster_convert_data_type: "derives self (RasterRDD_convert_data_type E C self t)"
  unfolding RasterRDD_convert_data_type_def
  by (intro derives_if derives_raise derives_get_self makes_one_intros keeps_intros)

lemma derives_raster_reproject: "derives self (RasterRDD_reproject E C self c m)"
  unfolding RasterRDD_reproject_def
  by (intro derives_if derives_raise derives_get_self makes_one_intros keeps_intros)

lemma derives_cut_tiles: "derives self (RasterRDD_cut_tiles E C self md m)"
  unfolding RasterRDD_cut_tiles_def
  by (intro derives_if derives_raise derives_get_self makes_one_intros keeps_intros)

lemma derives_raster_tile_to_layout: "derives self (RasterRDD_tile_to_layout E C self md m)"
  unfolding RasterRDD_tile_to_layout_def
  by (intro derives_if derives_raise derives_get_self makes_one_intros keeps_intros)

lemma derives_to_tiled_layer: "derives self (RasterRDD_to_tiled_layer E C self e l c ts m)"
  unfolding RasterRDD_to_tiled_layer_def
  by (intro derives_after keeps_collect_metadata derives_raster_tile_to_layout)

lemma derives_raster_reclassify: "derives self (RasterRDD_reclassify E C self vm dt bs rnw)"
  unfolding RasterRDD_reclassify_def
  by (intro derives_get_self makes_one_intros keeps_module_reclassify)

lemma derives_tiled_convert_data_type:
  "derives self (TiledRasterRDD_convert_data_type E C self t)"
  unfolding TiledRasterRDD_convert_data_type_def
  by (intro derives_get_self makes_one_intros keeps_intros)

lemma derives_tiled_reproject:
  "derives self (TiledRasterRDD_reproject E C self c e l sch ts thr m)"
  unfolding TiledRasterRDD_reproject_def Let_def
  by (cases e; cases l)
    (auto intro!: derives_raise derives_get_self makes_one_intros keeps_intros)

lemma derives_repartition: "derives self (TiledRasterRDD_repartition E self n)"
  unfolding TiledRasterRDD_repartition_def
  by (intro derives_get_self makes_one_intros keeps_intros)

lemma derives_tiled_tile_to_layout: "derives self (TiledRasterRDD_tile_to_layout E C self l m)"
  unfolding TiledRasterRDD_tile_to_layout_def
  by (intro derives_if derives_raise derives_get_self makes_one_intros keeps_intros)

lemma derives_focal: "derives self (TiledRasterRDD_focal E C self operation nb p1 p2 p3)"
  unfolding TiledRasterRDD_focal_def
  by (cases nb)
    (auto intro!: derives_raise derives_get_self makes_one_intros keeps_intros)

lemma derives_mask: "derives self (TiledRasterRDD_mask E self gs)"
  unfolding TiledRasterRDD_mask_def Let_def
  by (intro derives_get_self makes_one_intros keeps_intros)

lemma derives_cost_distance: "derives self (TiledRasterRDD_cost_distance E self gs d)"
  unfolding TiledRasterRDD_cost_distance_def Let_def
  by (intro derives_get_self makes_one_intros keeps_intros)

lemma derives_tiled_reclassify: "derives self (TiledRasterRDD_reclassify E C self vm dt bs rnw)"
  unfolding TiledRasterRDD_reclassify_def
  by (intro derives_get_self makes_one_intros keeps_module_reclassify)

lemma keeps_operand:
  "keeps_objects
     (case val of
        V_int i \<Rightarrow> remote (answer_rdd E) (R_local operation (srdd s) (OpInt i))
      | V_float x \<Rightarrow> remote (answer_rdd E) (R_local operation (srdd s) (OpFloat x))
      | V_object r \<Rightarrow>
          py_bind (get_self r) (\<lambda>v.
          if wrapper_class v = TiledRasterRDD then
            (if rdd_type s \<noteq> rdd_type v then
               py_raise (ValueError
                 [''Both TiledRasterRDDs need to have the same rdd_type''])
             else
               py_bind (TiledRasterRDD_layer_metadata E self) (\<lambda>m1.
               py_bind (TiledRasterRDD_layer_metadata E r) (\<lambda>m2.
               if tileLayout (layoutDefinition m1) \<noteq> tileLayout (layoutDefinition m2) then
                 py_raise (ValueError
                   [''Both TiledRasterRDDs need to have the same layout''])
               else
                 remote (answer_rdd E) (R_local operation (srdd s) (OpRdd (srdd v))))))
          else
            py_raise (TypeError [''Local operation cannot be performed with'']))
      | V_list rs \<Rightarrow>
          py_bind (srdds_of rs) (\<lambda>hs.
          remote (answer_rdd E) (R_local operation (srdd s) (OpRdds hs)))
      | V_other \<Rightarrow> py_raise (TypeError [''Local operation cannot be performed with'']))"
  by (cases val) (auto intro!: keeps_intros keeps_layer_metadata keeps_srdds_of)

lemma derives_process_operation: "derives self (process_operation E self val operation)"
  unfolding process_operation_def
  by (intro derives_get_self makes_one_intros keeps_operand)

lemma upt_from_length: "[n..<n + Suc k] = n # [Suc n..<Suc n + k]"
  by (simp add: upt_rec [of n] del: upt_Suc)

lemma wrap_all_eq:
  "wrap_all g t hs w =
     (Inr [length (objects w)..<length (objects w) + length hs],
      w\<lparr>objects := objects w @
         map (\<lambda>h. \<lparr>wrapper_class = TiledRasterRDD, geopysc = g, rdd_type = t, srdd = h,
                   is_cached = False\<rparr>) hs\<rparr>)"
proof (induction hs arbitrary: w)
  case Nil
  then show ?case by (simp add: py_return_def)
next
  case (Cons h hs)
  let ?x = "\<lparr>wrapper_class = TiledRasterRDD, geopysc = g, rdd_type = t, srdd = h,
             is_cached = False\<rparr>"
  let ?w1 = "w\<lparr>objects := objects w @ [?x]\<rparr>"
  have init: "TiledRasterRDD_init g t h w = (Inr (length (objects w)), ?w1)"
    by (simp add: TiledRasterRDD_init_def new_wrapper_def)
  have rest: "wrap_all g t hs ?w1 =
     (Inr [Suc (length (objects w))..<Suc (length (objects w)) + length hs],
      w\<lparr>objects := objects w @ ?x #
         map (\<lambda>h. \<lparr>wrapper_class = TiledRasterRDD, geopysc = g, rdd_type = t, srdd = h,
                   is_cached = False\<rparr>) hs\<rparr>)"
    using Cons [of ?w1] by simp
  have "wrap_all g t (h # hs) w =
     (Inr (length (objects w) #
           [Suc (length (objects w))..<Suc (length (objects w)) + length hs]),
      w\<lparr>objects := objects w @ ?x #
         map (\<lambda>h. \<lparr>wrapper_class = TiledRasterRDD, geopysc = g, rdd_type = t, srdd = h,
                   is_cached = False\<rparr>) hs\<rparr>)"
    by (simp add: py_bind_def init rest py_return_def del: upt_Suc)
  then show ?case
    using upt_from_length [of "length (objects w)" "length hs"] by (simp del: upt_Suc)
qed

lemma pyramid_fresh:
  assumes "TiledRasterRDD_pyramid E C self z1 z2 m w = (Inr rs, w')"
  shows "fresh_wrappers w self w' rs"
proof -
  from assms have valid: "m \<in> set (RESAMPLE_METHODS C)"
    by (auto simp: TiledRasterRDD_pyramid_def py_raise_def split: if_splits)
  from assms valid obtain md w1 where
    md: "TiledRasterRDD_layer_metadata E self w = (Inr md, w1)"
    by (cases "TiledRasterRDD_layer_metadata E self w")
      (auto simp: TiledRasterRDD_pyramid_def py_bind_def split: sum.splits)
  have o1: "objects w1 = objects w"
    using keeps_layer_metadata [of E self] md by (metis keeps_objects_def snd_conv)
  from md have live: "self < length (objects w)"
    by (auto simp: TiledRasterRDD_layer_metadata_def py_bind_def get_self_def split: if_splits)
  from assms valid md o1 live obtain hs where
    "wrap_all (geopysc (objects w ! self)) (rdd_type (objects w ! self)) hs
       (w1\<lparr>requests := requests w1 @
          [R_pyramid (srdd (objects w ! self)) z1 z2 m]\<rparr>) = (Inr rs, w')"
    by (auto simp: TiledRasterRDD_pyramid_def py_bind_def py_raise_def Let_def get_self_def
        remote_def split: if_splits sum.splits)
  then show ?thesis
    by (auto simp: wrap_all_eq fresh_wrappers_def o1 list_all_iff)
qed

lemma one_fresh:
  assumes "derives self m" and "one m w = (Inr rs, w')"
  shows "fresh_wrappers w self w' rs"
proof -
  from assms(2) obtain r where "m w = (Inr r, w')" and rs: "rs = [r]"
    by (cases "m w") (auto simp: one_def py_bind_def py_return_def split: sum.splits)
  with assms(1) obtain x where "r = length (objects w)" "objects w' = objects w @ [x]"
    "rdd_type x = rdd_type (objects w ! self)" "\<not> is_cached x"
    unfolding derives_def by blast
  then show ?thesis
    unfolding fresh_wrappers_def rs by (intro exI [of _ "[x]"]) simp
qed

lemma call_raster_fresh:
  "call_raster E C self m w = (Inr rs, w') \<Longrightarrow> fresh_wrappers w self w' rs"
  by (cases m)
    (auto intro: one_fresh derives_to_tiled_layer derives_raster_convert_data_type
      derives_raster_reproject derives_cut_tiles derives_raster_tile_to_layout
      derives_raster_reclassify)

lemma call_tiled_fresh:
  "call_tiled E C self m w = (Inr rs, w') \<Longrightarrow> fresh_wrappers w self w' rs"
  by (cases m)
    (auto simp: TiledRasterRDD_add_def TiledRasterRDD_radd_def TiledRasterRDD_sub_def
      TiledRasterRDD_rsub_def TiledRasterRDD_mul_def TiledRasterRDD_rmul_def
      TiledRasterRDD_truediv_def TiledRasterRDD_rtruediv_def
      intro: one_fresh pyramid_fresh derives_tiled_convert_data_type derives_tiled_reproject
      derives_repartition derives_tiled_tile_to_layout derives_focal derives_mask
      derives_cost_distance derives_tiled_reclassify derives_process_operation)

lemma persist_result:
  assumes "persist E self level w = (Inr r, w')"
  shows "r = self \<and> self < length (objects w)
       \<and> objects w' = (objects w)[self := (objects w ! self)\<lparr>is_cached := True\<rparr>]"
  using assms
  by (auto simp: persist_def py_bind_def get_self_def set_is_cached_def remote_def
      py_return_def split: if_splits sum.splits)

lemma unpersist_result:
  assumes "unpersist E self w = (Inr r, w')"
  shows "r = self \<and> self < length (objects w)
       \<and> objects w' = (objects w)[self := (objects w ! self)\<lparr>is_cached := False\<rparr>]"
  using assms
  by (auto simp: unpersist_def py_bind_def get_self_def set_is_cached_def remote_def
      py_return_def split: if_splits sum.splits)

lemma cache_result:
  assumes "cache E self w = (Inr r, w')"
  shows "r = self \<and> self < length (objects w)
       \<and> objects w' = (objects w)[self := (objects w ! self)\<lparr>is_cached := True\<rparr>]"
proof -
  from assms obtain r0 where "persist E self ''MEMORY_ONLY'' w = (Inr r0, w')" and "r = self"
    by (cases "persist E self ''MEMORY_ONLY'' w")
      (auto simp: cache_def py_bind_def py_return_def split: sum.splits)
  with persist_result [of E self _ w r0 w'] show ?thesis by simp
qed

text \<open>
  Claim C10, as amended. Every method that builds its result from a handle of the engine
  (all but \<open>cache\<close>, \<open>persist\<close> and \<open>unpersist\<close>) returns new wrapper objects, each
  with the \<open>rdd_type\<close> of the receiver and \<open>is_cached = False\<close>, whatever the flag of
  the receiver, and changes no existing object. \<open>cache\<close>, \<open>persist\<close> and
  \<open>unpersist\<close> return the receiver itself, with its flag set to true, true and false.
\<close>

theorem derived_collections_are_new_and_uncached:
  assumes "call_method E C self call w = (Inr rs, w')"
  shows "case call of
           On_wrapper m \<Rightarrow>
             rs = [self]
             \<and> objects w' = (objects w)[self := (objects w ! self)\<lparr>is_cached := (m \<noteq> M_unpersist)\<rparr>]
         | On_raster m \<Rightarrow> fresh_wrappers w self w' rs
         | On_tiled m \<Rightarrow> fresh_wrappers w self w' rs"
proof -
  from assms have live: "self < length (objects w)"
    by (auto simp: call_method_def py_bind_def get_self_def split: if_splits)
  show ?thesis
  proof (cases call)
    case (On_wrapper m)
    with assms live have run: "call_wrapper E self m w = (Inr rs, w')"
      by (simp add: call_method_def py_bind_def get_self_def)
    show ?thesis
    proof (cases m)
      case M_cache
      with run obtain r where "cache E self w = (Inr r, w')" and "rs = [r]"
        by (cases "cache E self w")
          (auto simp: one_def py_bind_def py_return_def split: sum.splits)
      with cache_result [of E self w r w'] On_wrapper M_cache show ?thesis by simp
    next
      case (M_persist level)
      with run obtain r where "persist E self level w = (Inr r, w')" and "rs = [r]"
        by (cases "persist E self level w")
          (auto simp: one_def py_bind_def py_return_def split: sum.splits)
      with persist_result [of E self level w r w'] On_wrapper M_persist show ?thesis by simp
    next
      case M_unpersist
      with run obtain r where "unpersist E self w = (Inr r, w')" and "rs = [r]"
        by (cases "unpersist E self w")
          (auto simp: one_def py_bind_def py_return_def split: sum.splits)
      with unpersist_result [of E self w r w'] On_wrapper M_unpersist show ?thesis by simp
    qed
  next
    case (On_raster m)
    with assms live have "call_raster E C self m w = (Inr rs, w')"
      by (auto simp: call_method_def py_bind_def get_self_def py_raise_def split: if_splits)
    then show ?thesis using On_raster by (simp add: call_raster_fresh)
  next
    case (On_tiled m)
    with assms live have "call_tiled E C self m w = (Inr rs, w')"
      by (auto simp: call_method_def py_bind_def get_self_def py_raise_def split: if_splits)
    then show ?thesis using On_tiled by (simp add: call_tiled_fresh)
  qed
qed

theorem derived_collections_are_new_and_uncached_witness:
  "call_method example_engine example_constants 3 (On_tiled (M_pyramid 12 10 ''Bilinear''))
       (example_world\<lparr>objects := (objects example_world)
          [3 := (objects example_world ! 3)\<lparr>is_cached := True\<rparr>]\<rparr>)
     = (Inr [4, 5],
        example_world
          \<lparr>objects := (objects example_world)
             [3 := (objects example_world ! 3)\<lparr>is_cached := True\<rparr>] @
             [\<lparr>wrapper_class = TiledRasterRDD, geopysc = 0, rdd_type = ''spatial'', srdd = 8,
               is_cached = False\<rparr>,
              \<lparr>wrapper_class = TiledRasterRDD, geopysc = 0, rdd_type = ''spatial'', srdd = 9,
               is_cached = False\<rparr>],
           requests := [R_layerMetadata 3, R_pyramid 3 12 10 ''Bilinear'']\<rparr>)
   \<and> fresh_wrappers
       (example_world\<lparr>objects := (objects example_world)
          [3 := (objects example_world ! 3)\<lparr>is_cached := True\<rparr>]\<rparr>) 3
       (example_world
          \<lparr>objects := (objects example_world)
             [3 := (objects example_world ! 3)\<lparr>is_cached := True\<rparr>] @
             [\<lparr>wrapper_class = TiledRasterRDD, geopysc = 0, rdd_type = ''spatial'', srdd = 8,
               is_cached = False\<rparr>,
              \<lparr>wrapper_class = TiledRasterRDD, geopysc = 0, rdd_type = ''spatial'', srdd = 9,
               is_cached = False\<rparr>],
           requests := [R_layerMetadata 3, R_pyramid 3 12 10 ''Bilinear'']\<rparr>) [4, 5]"
proof -
  have run: "call_method example_engine example_constants 3
       (On_tiled (M_pyramid 12 10 ''Bilinear''))
       (example_world\<lparr>objects := (objects example_world)
          [3 := (objects example_world ! 3)\<lparr>is_cached := True\<rparr>]\<rparr>)
     = (Inr [4, 5],
        example_world
          \<lparr>objects := (objects example_world)
             [3 := (objects example_world ! 3)\<lparr>is_cached := True\<rparr>] @
             [\<lparr>wrapper_class = TiledRasterRDD, geopysc = 0, rdd_type = ''spatial'', srdd = 8,
               is_cached = False\<rparr>,
              \<lparr>wrapper_class = TiledRasterRDD, geopysc = 0, rdd_type = ''spatial'', srdd = 9,
               is_cached = False\<rparr>],
           requests := [R_layerMetadata 3, R_pyramid 3 12 10 ''Bilinear'']\<rparr>)"
    by (simp add: call_method_def TiledRasterRDD_pyramid_def TiledRasterRDD_layer_metadata_def
        py_bind_def get_self_def remote_def TiledRasterRDD_init_def new_wrapper_def
        py_return_def example_world_def example_constants_def example_engine_def
        example_metadata_def other_metadata_def)
  from derived_collections_are_new_and_uncached [OF run] run show ?thesis by simp
qed

text \<open>
  \<open>persist\<close> returns a collection that is the receiver, and it is cached.
\<close>

theorem persist_returns_receiver_counterexample:
  "call_method example_engine example_constants 1 (On_wrapper (M_persist ''MEMORY_ONLY''))
       example_world
     = (Inr [1],
        example_world
          \<lparr>objects := (objects example_world)
             [1 := \<lparr>wrapper_class = TiledRasterRDD, geopysc = 0, rdd_type = ''spatial'',
                    srdd = 1, is_cached = True\<rparr>],
           requests := [R_persist 1 ''MEMORY_ONLY'']\<rparr>)"
  by (simp add: call_method_def persist_def one_def py_bind_def get_self_def set_is_cached_def
      remote_def py_return_def example_world_def example_engine_def)

section \<open>Tiling against the modelled engine\<close>

lemma keys_add_fragments:
  "map fst (add_fragments acc k fs) =
     (if k \<in> set (map fst acc) then map fst acc else map fst acc @ [k])"
proof (induction acc)
  case Nil
  show ?case by simp
next
  case (Cons p acc)
  obtain k' fs' where p: "p = (k', fs')" by (cases p)
  show ?case
  proof (cases "k' = k")
    case True
    then show ?thesis by (simp add: p)
  next
    case False
    then show ?thesis using Cons.IH by (simp add: p)
  qed
qed

lemma distinct_keys_fold:
  "distinct (map fst acc) \<Longrightarrow>
   distinct (map fst (foldl (\<lambda>acc (k, fs). add_fragments acc k fs) acc xs))"
proof (induction xs arbitrary: acc)
  case Nil
  then show ?case by simp
next
  case (Cons x xs)
  obtain k fs where x: "x = (k, fs)" by (cases x)
  have "distinct (map fst (add_fragments acc k fs))"
    using Cons.prems by (simp add: keys_add_fragments)
  then show ?case using Cons.IH [of "add_fragments acc k fs"] by (simp add: x)
qed

lemma set_keys_fold:
  "set (map fst (foldl (\<lambda>acc (k, fs). add_fragments acc k fs) acc xs)) =
     set (map fst acc) \<union> set (map fst xs)"
proof (induction xs arbitrary: acc)
  case Nil
  then show ?case by simp
next
  case (Cons x xs)
  obtain k fs where x: "x = (k, fs)" by (cases x)
  have "set (map fst (add_fragments acc k fs)) = insert k (set (map fst acc))"
    by (auto simp: keys_add_fragments)
  then show ?case using Cons.IH [of "add_fragments acc k fs"] by (simp add: x)
qed

lemma distinct_merge_by_key: "distinct (map fst (merge_by_key xs))"
  unfolding merge_by_key_def by (rule distinct_keys_fold) simp

lemma length_merge_by_key: "length (merge_by_key xs) = card (set (map fst xs))"
proof -
  have "length (merge_by_key xs) = length (map fst (merge_by_key xs))" by simp
  also have "\<dots> = card (set (map fst (merge_by_key xs)))"
    using distinct_merge_by_key [of xs] by (simp only: distinct_card)
  also have "\<dots> = card (set (map fst xs))"
    unfolding merge_by_key_def by (simp only: set_keys_fold) simp
  finally show ?thesis .
qed

lemma length_merge_le: "length (merge_by_key xs) \<le> length xs"
  using card_length [of "map fst xs"] by (simp add: length_merge_by_key)

lemma length_merge_less_iff:
  "length (merge_by_key xs) < length xs \<longleftrightarrow> \<not> distinct (map fst xs)"
proof -
  have "card (set (map fst xs)) = length (map fst xs) \<longleftrightarrow> distinct (map fst xs)"
    using card_distinct distinct_card by blast
  moreover have "card (set (map fst xs)) \<le> length (map fst xs)" by (rule card_length)
  ultimately show ?thesis by (auto simp: length_merge_by_key)
qed

lemma spec_cut_tiles:
  assumes "self < length (objects w)" and "srdd (objects w ! self) = Untiled xs"
    and "m \<in> set (RESAMPLE_METHODS C)"
  shows "RasterRDD_cut_tiles spec_engine C self md m w =
           (Inr (length (objects w)),
            w\<lparr>requests := requests w @ [R_cutTiles (Untiled xs) md m],
               objects := objects w @
                 [\<lparr>wrapper_class = TiledRasterRDD, geopysc = geopysc (objects w ! self),
                   rdd_type = rdd_type (objects w ! self),
                   srdd = Tiled md (cut (layoutDefinition md) xs), is_cached = False\<rparr>]\<rparr>)"
  using assms
  by (simp add: RasterRDD_cut_tiles_def py_bind_def get_self_def remote_def spec_engine_def
      TiledRasterRDD_init_def new_wrapper_def)

lemma spec_tile_to_layout:
  assumes "self < length (objects w)" and "srdd (objects w ! self) = Untiled xs"
    and "m \<in> set (RESAMPLE_METHODS C)"
  shows "RasterRDD_tile_to_layout spec_engine C self md m w =
           (Inr (length (objects w)),
            w\<lparr>requests := requests w @ [R_tileToLayout (Untiled xs) md m],
               objects := objects w @
                 [\<lparr>wrapper_class = TiledRasterRDD, geopysc = geopysc (objects w ! self),
                   rdd_type = rdd_type (objects w ! self),
                   srdd = Tiled md (merge_by_key (cut (layoutDefinition md) xs)),
                   is_cached = False\<rparr>]\<rparr>)"
  using assms
  by (simp add: RasterRDD_tile_to_layout_def py_bind_def get_self_def remote_def
      spec_engine_def TiledRasterRDD_init_def new_wrapper_def)







lemma example_cut_count:
  "length (cut (layoutDefinition example_metadata) three_rasters) = 8"
  by code_simp

lemma example_merge_count:
  "length (merge_by_key (cut (layoutDefinition example_metadata) three_rasters)) = 4"
  by code_simp

lemma one_raster_counts:
  "length (tiles_of (layoutDefinition example_metadata) (hd one_raster)) = 2"
  "length (cut (layoutDefinition example_metadata) one_raster) = 2"
  "length (merge_by_key (cut (layoutDefinition example_metadata) one_raster)) = 2"
  by code_simp+

text \<open>
  Claim C8, as amended. For every untiled collection and every layer metadata,
  \<open>tile_to_layout\<close> yields pairwise different keys and \<open>cut_tiles\<close> yields at least as
  many records; it yields strictly more exactly when some key occurs twice in its output,
  that is when several fragments land on one destination key.
\<close>

theorem tile_to_layout_unique_keys:
  assumes "self < length (objects w)" and "srdd (objects w ! self) = Untiled xs"
    and "m \<in> set (RESAMPLE_METHODS C)"
  shows "(\<exists>r w'. RasterRDD_cut_tiles spec_engine C self md m w = (Inr r, w'))
       \<and> (\<exists>r w'. RasterRDD_tile_to_layout spec_engine C self md m w = (Inr r, w'))
       \<and> distinct (map fst (result_records (RasterRDD_tile_to_layout spec_engine C self md m w)))
       \<and> length (result_records (RasterRDD_tile_to_layout spec_engine C self md m w))
           \<le> length (result_records (RasterRDD_cut_tiles spec_engine C self md m w))
       \<and> (length (result_records (RasterRDD_tile_to_layout spec_engine C self md m w))
            < length (result_records (RasterRDD_cut_tiles spec_engine C self md m w))
          \<longleftrightarrow> \<not> distinct (map fst
                 (result_records (RasterRDD_cut_tiles spec_engine C self md m w))))"
  by (simp add: spec_cut_tiles [OF assms] spec_tile_to_layout [OF assms]
      distinct_merge_by_key length_merge_le length_merge_less_iff)

theorem tile_to_layout_unique_keys_witness:
  "length (result_records (RasterRDD_cut_tiles spec_engine example_constants 0
       example_metadata ''Bilinear'' (spec_world three_rasters))) = 8
   \<and> length (result_records (RasterRDD_tile_to_layout spec_engine example_constants 0
       example_metadata ''Bilinear'' (spec_world three_rasters))) = 4
   \<and> distinct (map fst (result_records (RasterRDD_tile_to_layout spec_engine
       example_constants 0 example_metadata ''Bilinear'' (spec_world three_rasters))))
   \<and> \<not> distinct (map fst (result_records (RasterRDD_cut_tiles spec_engine
       example_constants 0 example_metadata ''Bilinear'' (spec_world three_rasters))))"
proof -
  have a: "0 < length (objects (spec_world three_rasters))"
    and b: "srdd (objects (spec_world three_rasters) ! 0) = Untiled three_rasters"
    by (simp_all add: spec_world_def)
  have d: "''Bilinear'' \<in> set (RESAMPLE_METHODS example_constants)"
    by (simp add: example_constants_def)
  have n: "length (result_records (RasterRDD_cut_tiles spec_engine example_constants 0
       example_metadata ''Bilinear'' (spec_world three_rasters))) = 8"
    by (simp add: spec_cut_tiles [OF a b d] example_cut_count)
  have k: "length (result_records (RasterRDD_tile_to_layout spec_engine example_constants 0
       example_metadata ''Bilinear'' (spec_world three_rasters))) = 4"
    by (simp add: spec_tile_to_layout [OF a b d] example_merge_count)
  from tile_to_layout_unique_keys [OF a b d, of example_metadata] n k
  show ?thesis by simp
qed

text \<open>
  One raster that overlaps two destination tiles: both operations yield two records.
\<close>

theorem one_raster_two_tiles_counterexample:
  "length (tiles_of (layoutDefinition example_metadata) (hd one_raster)) = 2
   \<and> length (result_records (RasterRDD_cut_tiles spec_engine example_constants 0
       example_metadata ''NearestNeighbor'' (spec_world one_raster))) = 2
   \<and> length (result_records (RasterRDD_tile_to_layout spec_engine example_constants 0
       example_metadata ''NearestNeighbor'' (spec_world one_raster))) = 2"
proof -
  have a: "0 < length (objects (spec_world one_raster))"
    and b: "srdd (objects (spec_world one_raster) ! 0) = Untiled one_raster"
    by (simp_all add: spec_world_def)
  have d: "''NearestNeighbor'' \<in> set (RESAMPLE_METHODS example_constants)"
    by (simp add: example_constants_def)
  show ?thesis
    by (simp add: spec_cut_tiles [OF a b d] spec_tile_to_layout [OF a b d] one_raster_counts)
qed

end
